theory Spec2Isabelle
  imports Main
begin

section \<open>Data of the conversation\<close>

text \<open>
  Python values that travel between the model and the local functions: the arguments of a
  function call and the value a tool returns (\<open>read_file\<close> a string, \<open>write_file\<close>
  \<open>True\<close>, \<open>list_dir\<close> a list of strings).
\<close>

datatype pyval = VStr string | VInt int | VBool bool | VList "pyval list" | VNone

text \<open>\<open>function_call.args\<close>, a dict from parameter names to values.\<close>

type_synonym args = "(string \<times> pyval) list"

text \<open>
  The exceptions that can leave \<open>Agent.run\<close>: \<open>TypeError\<close> from calling a function
  with keyword arguments that do not fit its signature, \<open>IndexError\<close> from
  \<open>response.candidates[0]\<close>, whatever a tool function raises, whatever the client raises.
\<close>

datatype exn = TypeError | IndexError | OSError string | BackendError string

datatype role = User | Model

text \<open>
  One part of a content: \<open>{"text": ...}\<close>, a part whose \<open>function_call\<close> is set (name and
  args), or \<open>{"function_response": {"name": ..., "response": {"result": ...}}}\<close>.
\<close>

datatype part = Text string | FunctionCall string args | FunctionResponse string pyval

record content =
  role :: role
  parts :: "part list"

text \<open>A response of the client; the code reads \<open>response.candidates[0].content\<close>.\<close>

record response =
  candidates :: "content list"

section \<open>Tools (toolsAgent.py, parts 1 to 3)\<close>

text \<open>
  A \<open>types.FunctionDeclaration\<close>: name, the property names of the parameter object and
  the required ones. The description strings are not modelled.
\<close>

record fdecl =
  fd_name :: string
  fd_properties :: "string list"
  fd_required :: "string list"

text \<open>
  A Python function as the source defines them: positional-or-keyword parameters without
  defaults, and a body acting on the local machine state \<open>'w\<close>. A body that raises may
  have changed the machine already, so the new state is returned in both cases.
\<close>

record 'w pyfun =
  params :: "string list"
  body :: "args \<Rightarrow> 'w \<Rightarrow> (exn + pyval) \<times> 'w"

text \<open>
  \<open>f(**function_args)\<close>: Python binds the keywords to the parameters before the body
  runs; a missing or an unexpected keyword raises \<open>TypeError\<close> and the body does not run.
\<close>

definition call_kwargs :: "'w pyfun \<Rightarrow> args \<Rightarrow> 'w \<Rightarrow> (exn + pyval) \<times> 'w" where
  "call_kwargs f a w =
     (if set (map fst a) = set (params f) then body f a w else (Inl TypeError, w))"

text \<open>One entry of the tools dict: \<open>{"definition": ..., "function": ...}\<close>.\<close>

record 'w tool =
  tool_definition :: fdecl
  tool_function :: "'w pyfun"

text \<open>
  The operating system as the three tool functions use it: \<open>open(p, "r")\<close> and \<open>read\<close>,
  \<open>open(p, "w")\<close> and \<open>write\<close>, \<open>os.listdir(os.path.expanduser(p))\<close>.
\<close>

record 'w os =
  os_read :: "pyval \<Rightarrow> 'w \<Rightarrow> (exn + pyval) \<times> 'w"
  os_write :: "pyval \<Rightarrow> pyval \<Rightarrow> 'w \<Rightarrow> (exn + unit) \<times> 'w"
  os_listdir :: "pyval \<Rightarrow> 'w \<Rightarrow> (exn + pyval) \<times> 'w"

definition read_file_definition :: fdecl where
  "read_file_definition =
     \<lparr>fd_name = ''read_file'', fd_properties = [''file_path''],
      fd_required = [''file_path'']\<rparr>"

definition list_dir_definition :: fdecl where
  "list_dir_definition =
     \<lparr>fd_name = ''list_dir'', fd_properties = [''directory_path''],
      fd_required = [''directory_path'']\<rparr>"

definition write_file_definition :: fdecl where
  "write_file_definition =
     \<lparr>fd_name = ''write_file'', fd_properties = [''file_path'', ''contents''],
      fd_required = [''file_path'', ''contents'']\<rparr>"

definition read_file :: "'w os \<Rightarrow> 'w pyfun" where
  "read_file sys =
     \<lparr>params = [''file_path''],
      body = (\<lambda>a w. case map_of a ''file_path'' of
                       None \<Rightarrow> (Inl TypeError, w)
                     | Some p \<Rightarrow> os_read sys p w)\<rparr>"

definition write_file :: "'w os \<Rightarrow> 'w pyfun" where
  "write_file sys =
     \<lparr>params = [''file_path'', ''contents''],
      body = (\<lambda>a w. case (map_of a ''file_path'', map_of a ''contents'') of
                       (Some p, Some c) \<Rightarrow>
                         (case os_write sys p c w of
                            (Inl e, w') \<Rightarrow> (Inl e, w')
                          | (Inr u, w') \<Rightarrow> (Inr (VBool True), w'))
                     | _ \<Rightarrow> (Inl TypeError, w))\<rparr>"

definition list_dir :: "'w os \<Rightarrow> 'w pyfun" where
  "list_dir sys =
     \<lparr>params = [''directory_path''],
      body = (\<lambda>a w. case map_of a ''directory_path'' of
                       None \<Rightarrow> (Inl TypeError, w)
                     | Some p \<Rightarrow> os_listdir sys p w)\<rparr>"

definition file_tools :: "'w os \<Rightarrow> (string \<times> 'w tool) list" where
  "file_tools sys =
     [(''read_file'', \<lparr>tool_definition = read_file_definition, tool_function = read_file sys\<rparr>),
      (''write_file'', \<lparr>tool_definition = write_file_definition, tool_function = write_file sys\<rparr>),
      (''list_dir'', \<lparr>tool_definition = list_dir_definition, tool_function = list_dir sys\<rparr>)]"

section \<open>The completion backend\<close>

text \<open>
  \<open>types.GenerateContentConfig\<close>: the declarations of all tools, and the system
  instruction when one is set.
\<close>

record config =
  cfg_tools :: "fdecl list"
  cfg_system_instruction :: "string option"

text \<open>
  What \<open>client.models.generate_content\<close> is given. geminiTest.py passes no config.
\<close>

record request =
  rq_model :: string
  rq_contents :: "content list"
  rq_config :: "config option"

text \<open>
  The backend is outside the program: the answer to the \<open>k\<close>-th call of the client, as a
  function of the request, is either a raised fault or a response.
\<close>

type_synonym backend = "nat \<Rightarrow> request \<Rightarrow> exn + response"

section \<open>Agent of toolsAgent.py\<close>

text \<open>
  The fields of \<open>Agent\<close> (\<open>model\<close>, \<open>contents\<close>, \<open>tools\<close>, \<open>system_instruction\<close>),
  the state of the machine the tool functions act on (\<open>world\<close>) and the number of calls
  the client has made so far (\<open>dispatches\<close>).
\<close>

record 'w agent =
  model :: string
  contents :: "content list"
  tools :: "(string \<times> 'w tool) list"
  system_instruction :: "string option"
  world :: 'w
  dispatches :: nat

text \<open>Step 1 of \<open>run\<close>: the user's message, one text part.\<close>

definition user_turn :: "string \<Rightarrow> content" where
  "user_turn t = \<lparr>role = User, parts = [Text t]\<rparr>"

definition append_user :: "string \<Rightarrow> 'w agent \<Rightarrow> 'w agent" where
  "append_user t st = st\<lparr>contents := contents st @ [user_turn t]\<rparr>"

text \<open>
  Step 2: the config. \<open>if self.system_instruction:\<close> is false for \<open>None\<close> and for the
  empty string.
\<close>

definition make_config :: "'w agent \<Rightarrow> config" where
  "make_config st =
     \<lparr>cfg_tools = map (\<lambda>(n, t). tool_definition t) (tools st),
      cfg_system_instruction =
        (case system_instruction st of
           None \<Rightarrow> None
         | Some s \<Rightarrow> if s = [] then None else Some s)\<rparr>"

definition request_of :: "'w agent \<Rightarrow> request" where
  "request_of st =
     \<lparr>rq_model = model st, rq_contents = contents st, rq_config = Some (make_config st)\<rparr>"

text \<open>
  Steps 3 and 6: \<open>generate_content\<close> with the whole history, then
  \<open>self.contents.append(response.candidates[0].content)\<close>. A fault of the client and the
  \<open>IndexError\<close> of an empty candidate list both leave the history as it was sent.
\<close>

definition dispatch :: "backend \<Rightarrow> 'w agent \<Rightarrow> (exn + response \<times> content) \<times> 'w agent" where
  "dispatch be st =
     (let st' = st\<lparr>dispatches := Suc (dispatches st)\<rparr> in
      case be (dispatches st) (request_of st) of
        Inl e \<Rightarrow> (Inl e, st')
      | Inr r \<Rightarrow>
          (case candidates r of
             [] \<Rightarrow> (Inl IndexError, st')
           | c # cs \<Rightarrow> (Inr (r, c), st'\<lparr>contents := contents st' @ [c]\<rparr>)))"

text \<open>Step 4: only the first part is inspected.\<close>

fun function_call :: "part \<Rightarrow> (string \<times> args) option" where
  "function_call (FunctionCall n a) = Some (n, a)"
| "function_call (Text t) = None"
| "function_call (FunctionResponse n v) = None"

definition has_function_call :: "content \<Rightarrow> bool" where
  "has_function_call c =
     (case parts c of [] \<Rightarrow> False | p # ps \<Rightarrow> function_call p \<noteq> None)"

text \<open>The list comprehension over all parts of the response.\<close>

definition function_calls :: "content \<Rightarrow> (string \<times> args) list" where
  "function_calls c = List.map_filter function_call (parts c)"

text \<open>The dict appended for one executed call.\<close>

definition function_response_turn :: "string \<Rightarrow> pyval \<Rightarrow> content" where
  "function_response_turn n v = \<lparr>role = User, parts = [FunctionResponse n v]\<rparr>"

text \<open>
  Step 5, the \<open>for\<close> loop. A name that is not a key of the tools dict is passed over.
  There is no \<open>try\<close>: the exception of a call ends the loop and the run.
\<close>

fun exec_calls :: "(string \<times> args) list \<Rightarrow> 'w agent \<Rightarrow> exn option \<times> 'w agent" where
  "exec_calls [] st = (None, st)"
| "exec_calls ((n, a) # rest) st =
     (case map_of (tools st) n of
        None \<Rightarrow> exec_calls rest st
      | Some t \<Rightarrow>
          (case call_kwargs (tool_function t) a (world st) of
             (Inl e, w') \<Rightarrow> (Some e, st\<lparr>world := w'\<rparr>)
           | (Inr v, w') \<Rightarrow>
               exec_calls rest
                 (st\<lparr>world := w', contents := contents st @ [function_response_turn n v]\<rparr>)))"

text \<open>
  The body of \<open>if has_function_call:\<close>, steps 5 and 6: the loop, then the second call of
  the model, whose response is returned as it is.
\<close>

definition tool_handling ::
  "backend \<Rightarrow> content \<Rightarrow> 'w agent \<Rightarrow> (exn + response) \<times> 'w agent" where
  "tool_handling be c1 st1 =
     (case exec_calls (function_calls c1) st1 of
        (Some e, st2) \<Rightarrow> (Inl e, st2)
      | (None, st2) \<Rightarrow>
          (case dispatch be st2 of
             (Inl e, st3) \<Rightarrow> (Inl e, st3)
           | (Inr (r2, c2), st3) \<Rightarrow> (Inr r2, st3)))"

definition run :: "backend \<Rightarrow> string \<Rightarrow> 'w agent \<Rightarrow> (exn + response) \<times> 'w agent" where
  "run be text st =
     (case dispatch be (append_user text st) of
        (Inl e, st1) \<Rightarrow> (Inl e, st1)
      | (Inr (r1, c1), st1) \<Rightarrow>
          if has_function_call c1 then tool_handling be c1 st1 else (Inr r1, st1))"

text \<open>Calls of \<open>run\<close> one after the other on one agent, whatever each of them returns.\<close>

fun run_all :: "backend \<Rightarrow> string list \<Rightarrow> 'w agent \<Rightarrow> 'w agent" where
  "run_all be [] st = st"
| "run_all be (t # ts) st = run_all be ts (snd (run be t st))"

section \<open>Agent of geminiTest.py\<close>

record chat =
  chat_model :: string
  chat_contents :: "content list"
  chat_dispatches :: nat

definition chat_request_of :: "chat \<Rightarrow> request" where
  "chat_request_of st =
     \<lparr>rq_model = chat_model st, rq_contents = chat_contents st, rq_config = None\<rparr>"

definition chat_append_user :: "string \<Rightarrow> chat \<Rightarrow> chat" where
  "chat_append_user t st = st\<lparr>chat_contents := chat_contents st @ [user_turn t]\<rparr>"

definition chat_run :: "backend \<Rightarrow> string \<Rightarrow> chat \<Rightarrow> (exn + response) \<times> chat" where
  "chat_run be text st =
     (let st1 = chat_append_user text st;
          st2 = st1\<lparr>chat_dispatches := Suc (chat_dispatches st1)\<rparr> in
      case be (chat_dispatches st1) (chat_request_of st1) of
        Inl e \<Rightarrow> (Inl e, st2)
      | Inr r \<Rightarrow>
          (case candidates r of
             [] \<Rightarrow> (Inl IndexError, st2)
           | c # cs \<Rightarrow> (Inr r, st2\<lparr>chat_contents := chat_contents st2 @ [c]\<rparr>)))"

fun chat_run_all :: "backend \<Rightarrow> string list \<Rightarrow> chat \<Rightarrow> chat" where
  "chat_run_all be [] st = st"
| "chat_run_all be (t # ts) st = chat_run_all be ts (snd (chat_run be t st))"

section \<open>Test doubles for the worked examples\<close>

text \<open>
  A file system with flat path names, as a list of (path, contents), newest first.
  Opening for writing creates or truncates the file before anything is written, so a
  \<open>write\<close> that raises on a value that is not a string leaves an empty file behind.
\<close>

type_synonym fs = "(string \<times> string) list"

definition stub_os :: "fs os" where
  "stub_os =
     \<lparr>os_read = (\<lambda>p w. case p of
                   VStr s \<Rightarrow> (case map_of w s of
                                None \<Rightarrow> (Inl (OSError ''No such file or directory''), w)
                              | Some d \<Rightarrow> (Inr (VStr d), w))
                 | _ \<Rightarrow> (Inl TypeError, w)),
      os_write = (\<lambda>p c w. case p of
                   VStr s \<Rightarrow> (case c of
                                VStr d \<Rightarrow> (Inr (), (s, d) # w)
                              | _ \<Rightarrow> (Inl TypeError, (s, []) # w))
                 | _ \<Rightarrow> (Inl TypeError, w)),
      os_listdir = (\<lambda>p w. case p of
                   VStr s \<Rightarrow> (Inr (VList (map (\<lambda>(n, d). VStr n) w)), w)
                 | _ \<Rightarrow> (Inl TypeError, w))\<rparr>"

text \<open>A backend that plays a fixed list of outcomes, one per call, and then fails.\<close>

definition scripted :: "(exn + response) list \<Rightarrow> backend" where
  "scripted rs k rq =
     (if k < length rs then rs ! k else Inl (BackendError ''script exhausted''))"

text \<open>A backend that gives the same response to every call.\<close>

definition constant_backend :: "response \<Rightarrow> backend" where
  "constant_backend r k rq = Inr r"

definition model_turn :: "part list \<Rightarrow> content" where
  "model_turn ps = \<lparr>role = Model, parts = ps\<rparr>"

definition model_response :: "part list \<Rightarrow> response" where
  "model_response ps = \<lparr>candidates = [model_turn ps]\<rparr>"

definition demo_agent :: "fs agent" where
  "demo_agent =
     \<lparr>model = ''gemini-2.5-flash'', contents = [], tools = file_tools stub_os,
      system_instruction = Some ''You are a helpful coding assistant.'',
      world = [(''a.txt'', ''alpha''), (''b.txt'', ''beta'')], dispatches = 0\<rparr>"

definition demo_chat :: chat where
  "demo_chat = \<lparr>chat_model = ''gemini-2.5-flash'', chat_contents = [], chat_dispatches = 0\<rparr>"

section \<open>Facts about one dispatch and about the loop\<close>


lemma dispatch_result:
  assumes "dispatch be st = (res, st')"
  shows "dispatches st' = Suc (dispatches st) \<and> world st' = world st \<and> tools st' = tools st \<and>
         (case res of
            Inl e \<Rightarrow> contents st' = contents st
          | Inr (r, c) \<Rightarrow> contents st' = contents st @ [c] \<and>
                be (dispatches st) (request_of st) = Inr r \<and> (\<exists>cs. candidates r = c # cs))"
  using assms by (auto simp: dispatch_def Let_def split: sum.splits list.splits)

lemma dispatch_fault:
  "be (dispatches st) (request_of st) = Inl e \<Longrightarrow>
   dispatch be st = (Inl e, st\<lparr>dispatches := Suc (dispatches st)\<rparr>)"
  by (simp add: dispatch_def)

lemma dispatch_answer:
  "be (dispatches st) (request_of st) = Inr r \<Longrightarrow> candidates r = c # cs \<Longrightarrow>
   dispatch be st =
     (Inr (r, c), st\<lparr>dispatches := Suc (dispatches st), contents := contents st @ [c]\<rparr>)"
  by (simp add: dispatch_def)

lemma exec_calls_keeps:
  "exec_calls calls st = (res, st') \<Longrightarrow>
   dispatches st' = dispatches st \<and> tools st' = tools st \<and>
   (\<exists>ext. contents st' = contents st @ ext)"
proof (induction calls arbitrary: st)
  case Nil
  then show ?case by simp
next
  case (Cons call rest)
  obtain n a where call: "call = (n, a)" by (cases call)
  show ?case
  proof (cases "map_of (tools st) n")
    case None
    with Cons call show ?thesis by simp
  next
    case (Some t)
    obtain out w' where out: "call_kwargs (tool_function t) a (world st) = (out, w')"
      by (cases "call_kwargs (tool_function t) a (world st)")
    show ?thesis
    proof (cases out)
      case (Inl e)
      with Cons.prems call Some out show ?thesis by auto
    next
      case (Inr v)
      let ?st = "st\<lparr>world := w', contents := contents st @ [function_response_turn n v]\<rparr>"
      from Cons.prems call Some out Inr have "exec_calls rest ?st = (res, st')" by simp
      from Cons.IH[OF this] show ?thesis by auto
    qed
  qed
qed

lemma exec_calls_append:
  "exec_calls (xs @ ys) st =
     (case exec_calls xs st of
        (Some e, st') \<Rightarrow> (Some e, st')
      | (None, st') \<Rightarrow> exec_calls ys st')"
  by (induction xs arbitrary: st) (auto split: option.splits sum.splits prod.splits)

lemma chat_run_prefix:
  "\<exists>ext. chat_contents (snd (chat_run be t st)) = chat_contents st @ user_turn t # ext"
  by (auto simp: chat_run_def chat_append_user_def Let_def split: sum.splits list.splits)

lemma chat_run_all_prefix:
  "\<exists>ext. chat_contents (chat_run_all be ts st) = chat_contents st @ ext \<and> length ts \<le> length ext"
proof (induction ts arbitrary: st)
  case Nil
  show ?case by simp
next
  case (Cons t ts)
  obtain e1 where e1: "chat_contents (snd (chat_run be t st)) = chat_contents st @ user_turn t # e1"
    using chat_run_prefix by blast
  obtain e2 where e2: "chat_contents (chat_run_all be ts (snd (chat_run be t st))) =
        chat_contents (snd (chat_run be t st)) @ e2" and len: "length ts \<le> length e2"
    using Cons.IH by blast
  have "chat_contents (chat_run_all be (t # ts) st) = chat_contents st @ (user_turn t # e1 @ e2)"
    using e1 e2 by simp
  moreover have "length (t # ts) \<le> length (user_turn t # e1 @ e2)"
    using len by simp
  ultimately show ?case by blast
qed

lemma run_prefix:
  "\<exists>ext. contents (snd (run be t st)) = contents st @ user_turn t # ext"
proof -
  obtain res st1 where d1: "dispatch be (append_user t st) = (res, st1)"
    by (cases "dispatch be (append_user t st)")
  note r1 = dispatch_result[OF d1]
  show ?thesis
  proof (cases res)
    case (Inl e)
    with d1 r1 show ?thesis by (simp add: run_def append_user_def)
  next
    case (Inr rc)
    obtain r1' c1 where rc: "rc = (r1', c1)" by (cases rc)
    from r1 Inr rc have c1: "contents st1 = contents st @ [user_turn t, c1]"
      by (simp add: append_user_def)
    show ?thesis
    proof (cases "has_function_call c1")
      case False
      with d1 Inr rc c1 show ?thesis by (simp add: run_def)
    next
      case True
      obtain x st2 where ex: "exec_calls (function_calls c1) st1 = (x, st2)"
        by (cases "exec_calls (function_calls c1) st1")
      from exec_calls_keeps[OF ex] obtain e2 where e2: "contents st2 = contents st1 @ e2"
        by blast
      show ?thesis
      proof (cases x)
        case (Some e)
        with d1 Inr rc True ex c1 e2 show ?thesis by (simp add: run_def tool_handling_def)
      next
        case None
        obtain res2 st3 where d2: "dispatch be st2 = (res2, st3)" by (cases "dispatch be st2")
        from dispatch_result[OF d2] have "\<exists>e3. contents st3 = contents st2 @ e3"
          by (auto split: sum.splits)
        then obtain e3 where e3: "contents st3 = contents st2 @ e3" by blast
        from d1 Inr rc True ex None d2 have "snd (run be t st) = st3"
          by (auto simp: run_def tool_handling_def split: sum.splits)
        with c1 e2 e3 show ?thesis by simp
      qed
    qed
  qed
qed

lemma run_all_prefix:
  "\<exists>ext. contents (run_all be ts st) = contents st @ ext \<and> length ts \<le> length ext"
proof (induction ts arbitrary: st)
  case Nil
  show ?case by simp
next
  case (Cons t ts)
  obtain e1 where e1: "contents (snd (run be t st)) = contents st @ user_turn t # e1"
    using run_prefix by blast
  obtain e2 where e2: "contents (run_all be ts (snd (run be t st))) =
        contents (snd (run be t st)) @ e2" and len: "length ts \<le> length e2"
    using Cons.IH by blast
  have "contents (run_all be (t # ts) st) = contents st @ (user_turn t # e1 @ e2)"
    using e1 e2 by simp
  moreover have "length (t # ts) \<le> length (user_turn t # e1 @ e2)"
    using len by simp
  ultimately show ?case by blast
qed

text \<open>
  Claim C8. Over any sequence of \<open>run\<close> calls on one agent, whatever the backend answers
  and whatever each call returns or raises, the history is append-only: the entries present
  before are still there, at the same positions and unchanged, and every call adds at least
  one entry. This holds for the agent of toolsAgent.py and for the one of geminiTest.py.
\<close>

theorem conversation_store_append_only:
  "take (length (contents st)) (contents (run_all be ts st)) = contents st \<and>
   length (contents st) + length ts \<le> length (contents (run_all be ts st)) \<and>
   take (length (chat_contents ch)) (chat_contents (chat_run_all be' ts' ch)) = chat_contents ch \<and>
   length (chat_contents ch) + length ts' \<le> length (chat_contents (chat_run_all be' ts' ch))"
proof -
  obtain e where e: "contents (run_all be ts st) = contents st @ e" "length ts \<le> length e"
    using run_all_prefix by blast
  obtain e' where e': "chat_contents (chat_run_all be' ts' ch) = chat_contents ch @ e'"
      "length ts' \<le> length e'"
    using chat_run_all_prefix by blast
  from e e' show ?thesis by simp
qed

section \<open>Agent of geminiTest.py: one dispatch and two entries per call\<close>


lemma chat_run_answer:
  assumes "be (chat_dispatches st) (chat_request_of (chat_append_user text st)) = Inr r"
    and "candidates r = c # cs"
  shows "chat_run be text st =
           (Inr r, st\<lparr>chat_contents := chat_contents st @ [user_turn text, c],
                       chat_dispatches := Suc (chat_dispatches st)\<rparr>)"
  using assms by (simp add: chat_run_def chat_append_user_def Let_def)

lemma chat_run_all_length:
  assumes "\<forall>k rq. \<exists>r c cs. be k rq = Inr r \<and> candidates r = c # cs"
  shows "length (chat_contents (chat_run_all be ts st)) = length (chat_contents st) + 2 * length ts
         \<and> chat_dispatches (chat_run_all be ts st) = chat_dispatches st + length ts"
proof (induction ts arbitrary: st)
  case Nil
  show ?case by simp
next
  case (Cons t ts)
  obtain r c cs where a: "be (chat_dispatches st) (chat_request_of (chat_append_user t st)) = Inr r"
      "candidates r = c # cs"
    using assms by blast
  have "chat_run be t st =
           (Inr r, st\<lparr>chat_contents := chat_contents st @ [user_turn t, c],
                       chat_dispatches := Suc (chat_dispatches st)\<rparr>)"
    using a by (rule chat_run_answer)
  with Cons.IH show ?case by simp
qed

section \<open>Agent of toolsAgent.py: dispatch faults and the single tool round\<close>


lemmas example_simps =
  demo_agent_def file_tools_def stub_os_def read_file_def write_file_def list_dir_def
  read_file_definition_def write_file_definition_def list_dir_definition_def
  scripted_def model_response_def model_turn_def run_def tool_handling_def dispatch_def
  append_user_def request_of_def make_config_def has_function_call_def function_calls_def
  function_response_turn_def call_kwargs_def user_turn_def List.map_filter_def

lemma run_dispatches:
  "dispatches (snd (run be t st)) = Suc (dispatches st) \<or>
   dispatches (snd (run be t st)) = Suc (Suc (dispatches st))"
proof -
  obtain res st1 where d1: "dispatch be (append_user t st) = (res, st1)"
    by (cases "dispatch be (append_user t st)")
  from dispatch_result[OF d1] have n1: "dispatches st1 = Suc (dispatches st)"
    by (simp add: append_user_def)
  show ?thesis
  proof (cases res)
    case (Inl e)
    with d1 n1 show ?thesis by (simp add: run_def)
  next
    case (Inr rc)
    obtain r1 c1 where rc: "rc = (r1, c1)" by (cases rc)
    show ?thesis
    proof (cases "has_function_call c1")
      case False
      with d1 Inr rc n1 show ?thesis by (simp add: run_def)
    next
      case True
      obtain x st2 where ex: "exec_calls (function_calls c1) st1 = (x, st2)"
        by (cases "exec_calls (function_calls c1) st1")
      from exec_calls_keeps[OF ex] have n2: "dispatches st2 = dispatches st1" by blast
      show ?thesis
      proof (cases x)
        case (Some e)
        with d1 Inr rc True ex n1 n2 show ?thesis by (simp add: run_def tool_handling_def)
      next
        case None
        obtain res2 st3 where d2: "dispatch be st2 = (res2, st3)" by (cases "dispatch be st2")
        from dispatch_result[OF d2] have n3: "dispatches st3 = Suc (dispatches st2)" by blast
        from d1 Inr rc True ex None d2 have "snd (run be t st) = st3"
          by (auto simp: run_def tool_handling_def split: sum.splits)
        with n1 n2 n3 show ?thesis by simp
      qed
    qed
  qed
qed

lemma run_second_dispatch:
  assumes d1: "dispatch be (append_user text st) = (Inr (r1, c1), st1)"
    and hc: "has_function_call c1"
    and ex: "exec_calls (function_calls c1) st1 = (None, st2)"
  shows "run be text st =
           (case dispatch be st2 of (Inl e, st3) \<Rightarrow> (Inl e, st3) | (Inr (r2, c2), st3) \<Rightarrow> (Inr r2, st3))"
    and "dispatches st2 = Suc (dispatches st)"
    and "\<exists>ext. contents st2 = contents st @ [user_turn text, c1] @ ext"
proof -
  show "run be text st =
           (case dispatch be st2 of (Inl e, st3) \<Rightarrow> (Inl e, st3) | (Inr (r2, c2), st3) \<Rightarrow> (Inr r2, st3))"
    using d1 hc ex by (simp add: run_def tool_handling_def)
  from dispatch_result[OF d1] have a: "dispatches st1 = Suc (dispatches st)"
      "contents st1 = contents st @ [user_turn text, c1]"
    by (simp_all add: append_user_def)
  from exec_calls_keeps[OF ex] a show "dispatches st2 = Suc (dispatches st)" by simp
  from exec_calls_keeps[OF ex] a
  show "\<exists>ext. contents st2 = contents st @ [user_turn text, c1] @ ext" by auto
qed

text \<open>
  Claim C9. A fault raised by a dispatch leaves \<open>run\<close> as that fault: there is no
  \<open>try\<close>, no retry (the failing dispatch is the last one) and no rollback. When the first
  dispatch fails, the user turn stays in the history; when the second one fails, the user
  turn, the model's tool-call turn and the tool results appended after them stay.
\<close>

theorem dispatch_fault_propagates:
  "(be (dispatches st) (request_of (append_user input st)) = Inl e \<longrightarrow>
      run be input st = (Inl e, (append_user input st)\<lparr>dispatches := Suc (dispatches st)\<rparr>)) \<and>
   (dispatch be' (append_user input' st') = (Inr (r1, c1), st1) \<and> has_function_call c1 \<and>
    exec_calls (function_calls c1) st1 = (None, st2) \<and>
    be' (dispatches st2) (request_of st2) = Inl e' \<longrightarrow>
      run be' input' st' = (Inl e', st2\<lparr>dispatches := Suc (dispatches st2)\<rparr>) \<and>
      dispatches st2 = Suc (dispatches st') \<and>
      (\<exists>ext. contents st2 = contents st' @ [user_turn input', c1] @ ext))"
proof (intro conjI impI)
  assume a: "be (dispatches st) (request_of (append_user input st)) = Inl e"
  have "dispatches (append_user input st) = dispatches st" by (simp add: append_user_def)
  with a have "dispatch be (append_user input st) =
      (Inl e, (append_user input st)\<lparr>dispatches := Suc (dispatches st)\<rparr>)"
    using dispatch_fault[of be "append_user input st" e] by simp
  then show "run be input st = (Inl e, (append_user input st)\<lparr>dispatches := Suc (dispatches st)\<rparr>)"
    by (simp add: run_def)
next
  assume a: "dispatch be' (append_user input' st') = (Inr (r1, c1), st1) \<and> has_function_call c1 \<and>
    exec_calls (function_calls c1) st1 = (None, st2) \<and>
    be' (dispatches st2) (request_of st2) = Inl e'"
  then have d1: "dispatch be' (append_user input' st') = (Inr (r1, c1), st1)"
    and hc: "has_function_call c1"
    and ex: "exec_calls (function_calls c1) st1 = (None, st2)"
    and f: "be' (dispatches st2) (request_of st2) = Inl e'"
    by blast+
  from run_second_dispatch(1)[OF d1 hc ex] dispatch_fault[of be' st2 e'] f
  show "run be' input' st' = (Inl e', st2\<lparr>dispatches := Suc (dispatches st2)\<rparr>)" by simp
  from run_second_dispatch(2)[OF d1 hc ex] show "dispatches st2 = Suc (dispatches st')" .
  from run_second_dispatch(3)[OF d1 hc ex]
  show "\<exists>ext. contents st2 = contents st' @ [user_turn input', c1] @ ext" .
qed

text \<open>
  Claim C6. A run makes at most two dispatches. When the second dispatch answers, its
  response is returned as it is and only its content is appended: the machine state is the
  one the first round of tool calls left, whatever parts the second response has, so a
  tool call in the second response is not executed.
\<close>

theorem at_most_one_tool_round:
  "dispatches (snd (run be input st)) \<le> dispatches st + 2 \<and>
   (dispatch be (append_user input st) = (Inr (r1, c1), st1) \<and> has_function_call c1 \<and>
    exec_calls (function_calls c1) st1 = (None, st2) \<and>
    be (dispatches st2) (request_of st2) = Inr r2 \<and> candidates r2 = c2 # cs \<longrightarrow>
      run be input st =
        (Inr r2, st2\<lparr>dispatches := dispatches st + 2, contents := contents st2 @ [c2]\<rparr>))"
proof (intro conjI impI)
  show "dispatches (snd (run be input st)) \<le> dispatches st + 2"
    using run_dispatches[of be "input" st] by auto
next
  assume a: "dispatch be (append_user input st) = (Inr (r1, c1), st1) \<and> has_function_call c1 \<and>
    exec_calls (function_calls c1) st1 = (None, st2) \<and>
    be (dispatches st2) (request_of st2) = Inr r2 \<and> candidates r2 = c2 # cs"
  then have d1: "dispatch be (append_user input st) = (Inr (r1, c1), st1)"
    and hc: "has_function_call c1"
    and ex: "exec_calls (function_calls c1) st1 = (None, st2)"
    and f: "be (dispatches st2) (request_of st2) = Inr r2" and g: "candidates r2 = c2 # cs"
    by blast+
  from run_second_dispatch(1)[OF d1 hc ex] dispatch_answer[of be st2 r2 c2 cs] f g
    run_second_dispatch(2)[OF d1 hc ex]
  show "run be input st =
        (Inr r2, st2\<lparr>dispatches := dispatches st + 2, contents := contents st2 @ [c2]\<rparr>)"
    by simp
qed

text \<open>
  The theorem on the demo agent: a backend that fails at once, and one that answers with a
  call of \<open>list_dir\<close> and fails at the second dispatch.
\<close>

theorem dispatch_fault_propagates_witness:
  "run (scripted [Inl (BackendError ''503'')]) ''hello'' demo_agent =
     (Inl (BackendError ''503''),
      demo_agent\<lparr>contents := [user_turn ''hello''], dispatches := 1\<rparr>) \<and>
   fst (run (scripted [Inr (model_response [FunctionCall ''list_dir'' [(''directory_path'', VStr ''.'')]]),
                       Inl (BackendError ''503'')]) ''list files'' demo_agent) =
     Inl (BackendError ''503'') \<and>
   dispatches (snd (run (scripted [Inr (model_response [FunctionCall ''list_dir'' [(''directory_path'', VStr ''.'')]]),
                       Inl (BackendError ''503'')]) ''list files'' demo_agent)) = 2 \<and>
   contents (snd (run (scripted [Inr (model_response [FunctionCall ''list_dir'' [(''directory_path'', VStr ''.'')]]),
                       Inl (BackendError ''503'')]) ''list files'' demo_agent)) =
     [user_turn ''list files'',
      model_turn [FunctionCall ''list_dir'' [(''directory_path'', VStr ''.'')]],
      function_response_turn ''list_dir'' (VList [VStr ''a.txt'', VStr ''b.txt''])]"
proof -
  let ?A = "scripted [Inl (BackendError ''503'')]"
  let ?B = "scripted [Inr (model_response [FunctionCall ''list_dir'' [(''directory_path'', VStr ''.'')]]),
                      Inl (BackendError ''503'')]"
  let ?r1 = "model_response [FunctionCall ''list_dir'' [(''directory_path'', VStr ''.'')]]"
  let ?c1 = "model_turn [FunctionCall ''list_dir'' [(''directory_path'', VStr ''.'')]]"
  let ?st1 = "snd (dispatch ?B (append_user ''list files'' demo_agent))"
  let ?st2 = "snd (exec_calls (function_calls ?c1) ?st1)"
  have h0: "?A (dispatches demo_agent) (request_of (append_user ''hello'' demo_agent)) =
              Inl (BackendError ''503'')"
    by (simp add: scripted_def demo_agent_def)
  have h1: "dispatch ?B (append_user ''list files'' demo_agent) = (Inr (?r1, ?c1), ?st1)"
    by (simp add: example_simps)
  have h2: "has_function_call ?c1"
    by (simp add: example_simps)
  have h3: "exec_calls (function_calls ?c1) ?st1 = (None, ?st2)"
    by (simp add: example_simps)
  have h4: "?B (dispatches ?st2) (request_of ?st2) = Inl (BackendError ''503'')"
    by (simp add: example_simps)
  have "run ?A ''hello'' demo_agent =
          (Inl (BackendError ''503''),
           (append_user ''hello'' demo_agent)\<lparr>dispatches := Suc (dispatches demo_agent)\<rparr>) \<and>
        run ?B ''list files'' demo_agent =
          (Inl (BackendError ''503''), ?st2\<lparr>dispatches := Suc (dispatches ?st2)\<rparr>)"
    using dispatch_fault_propagates
      [where be = ?A and st = demo_agent and input = "''hello''" and e = "BackendError ''503''"
         and be' = ?B and st' = demo_agent and input' = "''list files''" and ?r1.0 = ?r1
         and ?c1.0 = ?c1 and ?st1.0 = ?st1 and ?st2.0 = ?st2 and e' = "BackendError ''503''"]
      h0 h1 h2 h3 h4
    by blast
  then show ?thesis
    by (simp add: example_simps)
qed

text \<open>
  The theorem on the demo agent, with a second response that asks for \<open>write_file\<close>:
  it is returned, and no file is written.
\<close>

theorem at_most_one_tool_round_witness:
  "fst (run (scripted [Inr (model_response [FunctionCall ''list_dir'' [(''directory_path'', VStr ''.'')]]),
                       Inr (model_response [FunctionCall ''write_file''
                              [(''file_path'', VStr ''c.txt''), (''contents'', VStr ''x'')]])])
          ''list files'' demo_agent) =
     Inr (model_response [FunctionCall ''write_file''
                              [(''file_path'', VStr ''c.txt''), (''contents'', VStr ''x'')]]) \<and>
   world (snd (run (scripted [Inr (model_response [FunctionCall ''list_dir'' [(''directory_path'', VStr ''.'')]]),
                       Inr (model_response [FunctionCall ''write_file''
                              [(''file_path'', VStr ''c.txt''), (''contents'', VStr ''x'')]])])
          ''list files'' demo_agent)) = [(''a.txt'', ''alpha''), (''b.txt'', ''beta'')] \<and>
   dispatches (snd (run (scripted [Inr (model_response [FunctionCall ''list_dir'' [(''directory_path'', VStr ''.'')]]),
                       Inr (model_response [FunctionCall ''write_file''
                              [(''file_path'', VStr ''c.txt''), (''contents'', VStr ''x'')]])])
          ''list files'' demo_agent)) = 2"
proof -
  let ?r2 = "model_response [FunctionCall ''write_file''
                              [(''file_path'', VStr ''c.txt''), (''contents'', VStr ''x'')]]"
  let ?c2 = "model_turn [FunctionCall ''write_file''
                              [(''file_path'', VStr ''c.txt''), (''contents'', VStr ''x'')]]"
  let ?r1 = "model_response [FunctionCall ''list_dir'' [(''directory_path'', VStr ''.'')]]"
  let ?c1 = "model_turn [FunctionCall ''list_dir'' [(''directory_path'', VStr ''.'')]]"
  let ?B = "scripted [Inr ?r1, Inr ?r2]"
  let ?st1 = "snd (dispatch ?B (append_user ''list files'' demo_agent))"
  let ?st2 = "snd (exec_calls (function_calls ?c1) ?st1)"
  have h1: "dispatch ?B (append_user ''list files'' demo_agent) = (Inr (?r1, ?c1), ?st1)"
    by (simp add: example_simps)
  have h2: "has_function_call ?c1"
    by (simp add: example_simps)
  have h3: "exec_calls (function_calls ?c1) ?st1 = (None, ?st2)"
    by (simp add: example_simps)
  have h4: "?B (dispatches ?st2) (request_of ?st2) = Inr ?r2"
    by (simp add: example_simps)
  have h5: "candidates ?r2 = ?c2 # []"
    by (simp add: model_response_def)
  have "run ?B ''list files'' demo_agent =
          (Inr ?r2, ?st2\<lparr>dispatches := dispatches demo_agent + 2,
                           contents := contents ?st2 @ [?c2]\<rparr>)"
    using at_most_one_tool_round
      [where be = ?B and st = demo_agent and input = "''list files''" and ?r1.0 = ?r1
         and ?c1.0 = ?c1 and ?st1.0 = ?st1 and ?st2.0 = ?st2 and ?r2.0 = ?r2 and ?c2.0 = ?c2
         and cs = "[]"]
      h1 h2 h3 h4 h5
    by blast
  then show ?thesis
    by (simp add: example_simps)
qed

section \<open>Agent of toolsAgent.py: unknown tools\<close>



lemma exec_calls_results:
  "exec_calls calls st = (None, st') \<Longrightarrow>
   \<exists>vs. length vs = length (filter (\<lambda>(n, a). map_of (tools st) n \<noteq> None) calls) \<and>
        contents st' = contents st @
          map2 (\<lambda>(n, a) v. function_response_turn n v)
            (filter (\<lambda>(n, a). map_of (tools st) n \<noteq> None) calls) vs"
proof (induction calls arbitrary: st)
  case Nil
  then show ?case by simp
next
  case (Cons call rest)
  obtain n a where call: "call = (n, a)" by (cases call)
  show ?case
  proof (cases "map_of (tools st) n")
    case None
    with Cons.prems call have "exec_calls rest st = (None, st')" by simp
    from Cons.IH[OF this] None call show ?thesis by simp
  next
    case (Some t)
    obtain out w' where out: "call_kwargs (tool_function t) a (world st) = (out, w')"
      by (cases "call_kwargs (tool_function t) a (world st)")
    show ?thesis
    proof (cases out)
      case (Inl e)
      with Cons.prems call Some out show ?thesis by simp
    next
      case (Inr v)
      let ?st = "st\<lparr>world := w', contents := contents st @ [function_response_turn n v]\<rparr>"
      let ?reg = "\<lambda>(n, a). map_of (tools st) n \<noteq> None"
      from Cons.prems call Some out Inr have "exec_calls rest ?st = (None, st')" by simp
      from Cons.IH[OF this] obtain vs where vs: "length vs = length (filter ?reg rest)"
        "contents st' = contents ?st @ map2 (\<lambda>(n, a) v. function_response_turn n v) (filter ?reg rest) vs"
        by auto
      have "length (v # vs) = length (filter ?reg (call # rest))"
        using vs(1) call Some by simp
      moreover have "contents st' = contents st @
          map2 (\<lambda>(n, a) v. function_response_turn n v) (filter ?reg (call # rest)) (v # vs)"
        using vs(2) call Some by simp
      ultimately show ?thesis by blast
    qed
  qed
qed


section \<open>Agent of toolsAgent.py: a tool function that raises\<close>


lemma exec_calls_raise_at:
  assumes pre: "exec_calls pre st1 = (None, st2)"
    and reg: "map_of (tools st2) n = Some t"
    and out: "call_kwargs (tool_function t) a (world st2) = (Inl e, w')"
  shows "exec_calls (pre @ (n, a) # post) st1 = (Some e, st2\<lparr>world := w'\<rparr>)"
  using assms by (simp add: exec_calls_append)

lemma run_tool_fault:
  assumes d1: "dispatch be (append_user input st) = (Inr (r1, c1), st1)"
    and hc: "has_function_call c1"
    and calls: "function_calls c1 = pre @ (n, a) # post"
    and pre: "exec_calls pre st1 = (None, st2)"
    and reg: "map_of (tools st2) n = Some t"
    and out: "call_kwargs (tool_function t) a (world st2) = (Inl e, w')"
  shows "run be input st = (Inl e, st2\<lparr>world := w'\<rparr>)"
    and "dispatches st2 = Suc (dispatches st)"
    and "\<exists>ext. contents st2 = contents st @ [user_turn input, c1] @ ext"
proof -
  from exec_calls_raise_at[OF pre reg out, of post] calls
  have ex: "exec_calls (function_calls c1) st1 = (Some e, st2\<lparr>world := w'\<rparr>)" by simp
  with d1 hc show "run be input st = (Inl e, st2\<lparr>world := w'\<rparr>)"
    by (simp add: run_def tool_handling_def)
  from dispatch_result[OF d1] have a: "dispatches st1 = Suc (dispatches st)"
      "contents st1 = contents st @ [user_turn input, c1]"
    by (simp_all add: append_user_def)
  from exec_calls_keeps[OF pre] a show "dispatches st2 = Suc (dispatches st)" by simp
  from exec_calls_keeps[OF pre] a
  show "\<exists>ext. contents st2 = contents st @ [user_turn input, c1] @ ext" by auto
qed

text \<open>
  Claim C2, as the code has it. The loop calls the tool function with no \<open>try\<close> around
  it. When the function of a request raises, after the requests before it have returned, the
  exception leaves \<open>run\<close> uncaught: no result turn is appended for the request, the
  requests after it are not executed and the second dispatch does not take place (the run
  has made one dispatch). The turns appended before stay in the history.
\<close>

theorem tool_exception_propagates:
  assumes "dispatch be (append_user input st) = (Inr (r1, c1), st1)"
    and "has_function_call c1"
    and "function_calls c1 = pre @ (n, a) # post"
    and "exec_calls pre st1 = (None, st2)"
    and "map_of (tools st2) n = Some t"
    and "call_kwargs (tool_function t) a (world st2) = (Inl e, w')"
  shows "run be input st = (Inl e, st2\<lparr>world := w'\<rparr>) \<and>
         dispatches (snd (run be input st)) = Suc (dispatches st) \<and>
         (\<exists>ext. contents (snd (run be input st)) = contents st @ [user_turn input, c1] @ ext)"
proof -
  note r = run_tool_fault[OF assms]
  from r(1) r(2) r(3) show ?thesis by simp
qed

text \<open>
  The theorem on the demo agent: \<open>list_dir\<close> returns, then \<open>read_file\<close> of a file
  that does not exist raises.
\<close>

theorem tool_exception_propagates_witness:
  "run (scripted [Inr (model_response
                         [FunctionCall ''list_dir'' [(''directory_path'', VStr ''.'')],
                          FunctionCall ''read_file'' [(''file_path'', VStr ''c.txt'')]]),
                  Inr (model_response [Text ''unreachable''])])
       ''read c.txt'' demo_agent =
     (Inl (OSError ''No such file or directory''),
      demo_agent\<lparr>contents :=
                    [user_turn ''read c.txt'',
                     model_turn [FunctionCall ''list_dir'' [(''directory_path'', VStr ''.'')],
                                 FunctionCall ''read_file'' [(''file_path'', VStr ''c.txt'')]],
                     function_response_turn ''list_dir'' (VList [VStr ''a.txt'', VStr ''b.txt''])],
                  dispatches := 1\<rparr>)"
proof -
  let ?r1 = "model_response
               [FunctionCall ''list_dir'' [(''directory_path'', VStr ''.'')],
                FunctionCall ''read_file'' [(''file_path'', VStr ''c.txt'')]]"
  let ?c1 = "model_turn
               [FunctionCall ''list_dir'' [(''directory_path'', VStr ''.'')],
                FunctionCall ''read_file'' [(''file_path'', VStr ''c.txt'')]]"
  let ?B = "scripted [Inr ?r1, Inr (model_response [Text ''unreachable''])]"
  let ?pre = "[(''list_dir'', [(''directory_path'', VStr ''.'')])]"
  let ?st1 = "snd (dispatch ?B (append_user ''read c.txt'' demo_agent))"
  let ?st2 = "snd (exec_calls ?pre ?st1)"
  let ?t = "\<lparr>tool_definition = read_file_definition, tool_function = read_file stub_os\<rparr>"
  have h1: "dispatch ?B (append_user ''read c.txt'' demo_agent) = (Inr (?r1, ?c1), ?st1)"
    by (simp add: example_simps)
  have h2: "has_function_call ?c1"
    by (simp add: example_simps)
  have h3: "function_calls ?c1 = ?pre @ (''read_file'', [(''file_path'', VStr ''c.txt'')]) # []"
    by (simp add: example_simps)
  have h4: "exec_calls ?pre ?st1 = (None, ?st2)"
    by (simp add: example_simps)
  have h5: "map_of (tools ?st2) ''read_file'' = Some ?t"
    by (simp add: example_simps)
  have h6: "call_kwargs (tool_function ?t) [(''file_path'', VStr ''c.txt'')] (world ?st2) =
              (Inl (OSError ''No such file or directory''), world ?st2)"
    by (simp add: example_simps)
  have "run ?B ''read c.txt'' demo_agent =
          (Inl (OSError ''No such file or directory''), ?st2\<lparr>world := world ?st2\<rparr>)"
    using tool_exception_propagates[OF h1 h2 h3 h4 h5 h6] by blast
  then show ?thesis
    by (simp add: example_simps)
qed

text \<open>
  Claim C2 as stated asks for an in-band error result and a second dispatch. With one
  request for \<open>read_file\<close> on a missing file, the run ends with the exception, after one
  dispatch, and the history holds the user turn and the model's request only.
\<close>

theorem tool_exception_counterexample:
  "run (scripted [Inr (model_response [FunctionCall ''read_file'' [(''file_path'', VStr ''missing.txt'')]]),
                  Inr (model_response [Text ''The file does not exist.''])])
       ''show missing.txt'' demo_agent =
     (Inl (OSError ''No such file or directory''),
      demo_agent\<lparr>contents :=
                    [user_turn ''show missing.txt'',
                     model_turn [FunctionCall ''read_file'' [(''file_path'', VStr ''missing.txt'')]]],
                  dispatches := 1\<rparr>)"
  by (simp add: example_simps)

section \<open>Agent of toolsAgent.py: arguments that do not fit the function\<close>


lemma call_kwargs_mismatch:
  "set (map fst a) \<noteq> set (params f) \<Longrightarrow> call_kwargs f a w = (Inl TypeError, w)"
  by (simp add: call_kwargs_def)

text \<open>
  Claim C4 as stated asks for an error-payload result and no fault. For \<open>write_file\<close>
  with arguments \<open>{file_path: "/tmp/x"}\<close> the run ends with \<open>TypeError\<close> after one dispatch,
  and the history holds no result turn. No file is written, as the claim says.
\<close>

theorem missing_argument_counterexample:
  "run (scripted [Inr (model_response [FunctionCall ''write_file'' [(''file_path'', VStr ''/tmp/x'')]]),
                  Inr (model_response [Text ''The contents are missing.''])])
       ''write to /tmp/x'' demo_agent =
     (Inl TypeError,
      demo_agent\<lparr>contents :=
                    [user_turn ''write to /tmp/x'',
                     model_turn [FunctionCall ''write_file'' [(''file_path'', VStr ''/tmp/x'')]]],
                  dispatches := 1\<rparr>)"
  by (simp add: example_simps)

section \<open>Agent of geminiTest.py: what one call appends\<close>


lemma chat_run_fault:
  "be (chat_dispatches st) (chat_request_of (chat_append_user input st)) = Inl e \<Longrightarrow>
   chat_run be input st =
     (Inl e, st\<lparr>chat_contents := chat_contents st @ [user_turn input],
                 chat_dispatches := Suc (chat_dispatches st)\<rparr>)"
  by (simp add: chat_run_def chat_append_user_def Let_def)

lemma chat_request_sent:
  "chat_request_of (chat_append_user input st) =
     \<lparr>rq_model = chat_model st,
      rq_contents = chat_contents st @ [\<lparr>role = User, parts = [Text input]\<rparr>],
      rq_config = None\<rparr>"
  by (simp add: chat_request_of_def chat_append_user_def user_turn_def)

text \<open>
  Claim C10, as the code has it. A call of \<open>run\<close> of geminiTest.py sends the whole
  history, with the user turn holding the given text appended, in one dispatch. When the
  backend answers with a response that has a candidate, the call appends exactly two
  entries (that user turn, then the content of the response), leaves the earlier entries as
  they were and returns the response. Hence, with a backend that answers every call, \<open>n\<close>
  calls add exactly \<open>2 * n\<close> entries in \<open>n\<close> dispatches: \<open>2 * n\<close> entries from the empty
  history of a new agent. When the dispatch raises, the exception leaves \<open>run\<close> and only
  the user turn has been appended.
\<close>

theorem chat_run_two_entries_when_answered:
  "(be (chat_dispatches st)
       \<lparr>rq_model = chat_model st,
        rq_contents = chat_contents st @ [\<lparr>role = User, parts = [Text input]\<rparr>],
        rq_config = None\<rparr> = Inr r \<and>
    candidates r = c # cs \<longrightarrow>
      chat_run be input st =
        (Inr r, st\<lparr>chat_contents :=
                      chat_contents st @ [\<lparr>role = User, parts = [Text input]\<rparr>, c],
                    chat_dispatches := Suc (chat_dispatches st)\<rparr>)) \<and>
   ((\<forall>k rq. \<exists>r c cs. be' k rq = Inr r \<and> candidates r = c # cs) \<longrightarrow>
      length (chat_contents (chat_run_all be' ts st')) = length (chat_contents st') + 2 * length ts \<and>
      chat_dispatches (chat_run_all be' ts st') = chat_dispatches st' + length ts) \<and>
   (be'' (chat_dispatches st'')
       \<lparr>rq_model = chat_model st'',
        rq_contents = chat_contents st'' @ [\<lparr>role = User, parts = [Text input'']\<rparr>],
        rq_config = None\<rparr> = Inl e \<longrightarrow>
      chat_run be'' input'' st'' =
        (Inl e, st''\<lparr>chat_contents :=
                       chat_contents st'' @ [\<lparr>role = User, parts = [Text input'']\<rparr>],
                     chat_dispatches := Suc (chat_dispatches st'')\<rparr>))"
proof (intro conjI impI)
  assume a: "be (chat_dispatches st)
       \<lparr>rq_model = chat_model st,
        rq_contents = chat_contents st @ [\<lparr>role = User, parts = [Text input]\<rparr>],
        rq_config = None\<rparr> = Inr r \<and> candidates r = c # cs"
  then have "be (chat_dispatches st) (chat_request_of (chat_append_user input st)) = Inr r"
    and "candidates r = c # cs"
    by (simp_all add: chat_request_sent)
  then have "chat_run be input st =
           (Inr r, st\<lparr>chat_contents := chat_contents st @ [user_turn input, c],
                       chat_dispatches := Suc (chat_dispatches st)\<rparr>)"
    by (rule chat_run_answer)
  then show "chat_run be input st =
        (Inr r, st\<lparr>chat_contents :=
                      chat_contents st @ [\<lparr>role = User, parts = [Text input]\<rparr>, c],
                    chat_dispatches := Suc (chat_dispatches st)\<rparr>)"
    by (simp add: user_turn_def)
next
  assume a: "\<forall>k rq. \<exists>r c cs. be' k rq = Inr r \<and> candidates r = c # cs"
  have "length (chat_contents (chat_run_all be' ts st')) = length (chat_contents st') + 2 * length ts
         \<and> chat_dispatches (chat_run_all be' ts st') = chat_dispatches st' + length ts"
    using a by (rule chat_run_all_length)
  then show "length (chat_contents (chat_run_all be' ts st')) = length (chat_contents st') + 2 * length ts"
    and "chat_dispatches (chat_run_all be' ts st') = chat_dispatches st' + length ts"
    by blast+
next
  assume "be'' (chat_dispatches st'')
       \<lparr>rq_model = chat_model st'',
        rq_contents = chat_contents st'' @ [\<lparr>role = User, parts = [Text input'']\<rparr>],
        rq_config = None\<rparr> = Inl e"
  then have "be'' (chat_dispatches st'') (chat_request_of (chat_append_user input'' st'')) = Inl e"
    by (simp add: chat_request_sent)
  then have "chat_run be'' input'' st'' =
     (Inl e, st''\<lparr>chat_contents := chat_contents st'' @ [user_turn input''],
                 chat_dispatches := Suc (chat_dispatches st'')\<rparr>)"
    by (rule chat_run_fault)
  then show "chat_run be'' input'' st'' =
        (Inl e, st''\<lparr>chat_contents :=
                       chat_contents st'' @ [\<lparr>role = User, parts = [Text input'']\<rparr>],
                     chat_dispatches := Suc (chat_dispatches st'')\<rparr>)"
    by (simp add: user_turn_def)
qed

text \<open>
  The theorem on a new agent: one answered call, three answered calls in a row, and one
  call whose dispatch raises.
\<close>

theorem chat_run_two_entries_when_answered_witness:
  "chat_run (constant_backend (model_response [Text ''Berlin, Munich, Cologne''])) ''cities?'' demo_chat =
     (Inr (model_response [Text ''Berlin, Munich, Cologne'']),
      \<lparr>chat_model = ''gemini-2.5-flash'',
       chat_contents = [\<lparr>role = User, parts = [Text ''cities?'']\<rparr>,
                        \<lparr>role = Model, parts = [Text ''Berlin, Munich, Cologne'']\<rparr>],
       chat_dispatches = 1\<rparr>) \<and>
   length (chat_contents (chat_run_all (constant_backend (model_response [Text ''ok'']))
                            [''one'', ''two'', ''three''] demo_chat)) = 6 \<and>
   chat_dispatches (chat_run_all (constant_backend (model_response [Text ''ok'']))
                            [''one'', ''two'', ''three''] demo_chat) = 3 \<and>
   chat_run (scripted [Inl (BackendError ''timeout'')]) ''cities?'' demo_chat =
     (Inl (BackendError ''timeout''),
      \<lparr>chat_model = ''gemini-2.5-flash'',
       chat_contents = [\<lparr>role = User, parts = [Text ''cities?'']\<rparr>],
       chat_dispatches = 1\<rparr>)"
  using chat_run_two_entries_when_answered
    [where be = "constant_backend (model_response [Text ''Berlin, Munich, Cologne''])"
       and st = demo_chat and input = "''cities?''"
       and r = "model_response [Text ''Berlin, Munich, Cologne'']"
       and c = "model_turn [Text ''Berlin, Munich, Cologne'']" and cs = "[]"
       and be' = "constant_backend (model_response [Text ''ok''])"
       and ts = "[''one'', ''two'', ''three'']" and st' = demo_chat
       and be'' = "scripted [Inl (BackendError ''timeout'')]" and st'' = demo_chat
       and input'' = "''cities?''" and e = "BackendError ''timeout''"]
  by (simp add: constant_backend_def model_response_def model_turn_def demo_chat_def scripted_def)

text \<open>
  Claim C10 as stated speaks of every call. A call whose dispatch raises appends one entry
  and returns no response, and three such calls leave three entries, not six.
\<close>

theorem chat_run_fault_counterexample:
  "chat_run (scripted [Inl (BackendError ''503'')]) ''hello'' demo_chat =
     (Inl (BackendError ''503''),
      \<lparr>chat_model = ''gemini-2.5-flash'',
       chat_contents = [\<lparr>role = User, parts = [Text ''hello'']\<rparr>],
       chat_dispatches = 1\<rparr>) \<and>
   length (chat_contents (chat_run_all (scripted []) [''one'', ''two'', ''three''] demo_chat)) = 3"
  by (simp add: chat_run_def chat_append_user_def chat_request_of_def user_turn_def scripted_def
      demo_chat_def Let_def)

section \<open>Agent of toolsAgent.py: a run with unknown tools\<close>


lemma dispatch_state:
  "dispatch be st = (Inr (r, c), st') \<Longrightarrow>
   st' = st\<lparr>dispatches := Suc (dispatches st), contents := contents st @ [c]\<rparr>"
  by (auto simp: dispatch_def Let_def split: sum.splits list.splits)

lemma first_dispatch_state:
  "dispatch be (append_user input st) = (Inr (r1, c1), st1) \<Longrightarrow>
   st1 = st\<lparr>contents := contents st @ [\<lparr>role = User, parts = [Text input]\<rparr>, c1],
             dispatches := Suc (dispatches st)\<rparr>"
  by (drule dispatch_state) (simp add: append_user_def user_turn_def)



section \<open>Agent of toolsAgent.py: a run with arguments that do not fit\<close>


lemma exec_calls_at:
  assumes pre: "exec_calls pre st1 = (None, st2)"
    and reg: "map_of (tools st2) n = Some t"
  shows "exec_calls (pre @ (n, a) # post) st1 =
     (if set (map fst a) = set (params (tool_function t)) then
        (case body (tool_function t) a (world st2) of
           (Inl e, w') \<Rightarrow> (Some e, st2\<lparr>world := w'\<rparr>)
         | (Inr v, w') \<Rightarrow>
             exec_calls post
               (st2\<lparr>world := w',
                    contents := contents st2 @ [\<lparr>role = User, parts = [FunctionResponse n v]\<rparr>]\<rparr>))
      else (Some TypeError, st2))"
  using assms
  by (simp add: exec_calls_append call_kwargs_def function_response_turn_def
      split: prod.splits sum.splits)

text \<open>
  Claim C4, as the code has it. The loop never reads the declared parameters of a tool: it
  calls the function with \<open>**function_args\<close>, and the only check is the one Python makes
  when it binds the keys to the parameters of the function. For a request of a registered
  tool, reached after the requests before it have returned: when the keys are not exactly
  the parameters (one is missing, or there is an unknown one), \<open>TypeError\<close> leaves \<open>run\<close>
  with the state as it was before the call, so the body has not run (no file is written), no
  result turn is appended, and the run has made one dispatch; when the keys fit, the body
  runs on the values as they are, whatever their types, and its exception leaves \<open>run\<close>
  or its value is appended as the result and the loop goes on.
\<close>

theorem arguments_not_validated:
  assumes "dispatch be (append_user input st) = (Inr (r1, c1), st1)"
    and "has_function_call c1"
    and "function_calls c1 = pre @ (n, a) # post"
    and "exec_calls pre st1 = (None, st2)"
    and "map_of (tools st2) n = Some t"
  shows "run be input st =
     (if set (map fst a) = set (params (tool_function t)) then
        (case body (tool_function t) a (world st2) of
           (Inl e, w') \<Rightarrow> (Inl e, st2\<lparr>world := w'\<rparr>)
         | (Inr v, w') \<Rightarrow>
             (case exec_calls post
                     (st2\<lparr>world := w',
                          contents := contents st2 @
                            [\<lparr>role = User, parts = [FunctionResponse n v]\<rparr>]\<rparr>) of
                (Some e, st3) \<Rightarrow> (Inl e, st3)
              | (None, st3) \<Rightarrow>
                  (case dispatch be st3 of
                     (Inl e, st4) \<Rightarrow> (Inl e, st4)
                   | (Inr (r2, c2), st4) \<Rightarrow> (Inr r2, st4))))
      else (Inl TypeError, st2)) \<and>
     (set (map fst a) \<noteq> set (params (tool_function t)) \<longrightarrow>
        dispatches (snd (run be input st)) = Suc (dispatches st))"
proof -
  have r: "run be input st =
      (case exec_calls (pre @ (n, a) # post) st1 of
         (Some e, st2) \<Rightarrow> (Inl e, st2)
       | (None, st2) \<Rightarrow>
           (case dispatch be st2 of
              (Inl e, st3) \<Rightarrow> (Inl e, st3)
            | (Inr (r2, c2), st3) \<Rightarrow> (Inr r2, st3)))"
    using assms(1-3) by (simp add: run_def tool_handling_def)
  note at = exec_calls_at[OF assms(4,5), of a post]
  have main: "run be input st =
     (if set (map fst a) = set (params (tool_function t)) then
        (case body (tool_function t) a (world st2) of
           (Inl e, w') \<Rightarrow> (Inl e, st2\<lparr>world := w'\<rparr>)
         | (Inr v, w') \<Rightarrow>
             (case exec_calls post
                     (st2\<lparr>world := w',
                          contents := contents st2 @
                            [\<lparr>role = User, parts = [FunctionResponse n v]\<rparr>]\<rparr>) of
                (Some e, st3) \<Rightarrow> (Inl e, st3)
              | (None, st3) \<Rightarrow>
                  (case dispatch be st3 of
                     (Inl e, st4) \<Rightarrow> (Inl e, st4)
                   | (Inr (r2, c2), st4) \<Rightarrow> (Inr r2, st4))))
      else (Inl TypeError, st2))"
    unfolding r at by (simp split: prod.splits sum.splits)
  have "dispatches st2 = Suc (dispatches st)"
    using dispatch_result[OF assms(1)] exec_calls_keeps[OF assms(4)]
    by (simp add: append_user_def)
  with main show ?thesis by simp
qed

text \<open>
  The theorem on the demo agent: \<open>write_file\<close> without \<open>contents\<close> raises before
  anything is written; \<open>write_file\<close> with the number 5 as \<open>contents\<close> is invoked, and the
  file is truncated before \<open>write\<close> raises.
\<close>

theorem arguments_not_validated_witness:
  "run (scripted [Inr (model_response [FunctionCall ''write_file'' [(''file_path'', VStr ''/tmp/x'')]]),
                  Inr (model_response [Text ''unreachable''])])
       ''write x'' demo_agent =
     (Inl TypeError,
      demo_agent\<lparr>contents :=
                    [\<lparr>role = User, parts = [Text ''write x'']\<rparr>,
                     \<lparr>role = Model,
                      parts = [FunctionCall ''write_file'' [(''file_path'', VStr ''/tmp/x'')]]\<rparr>],
                  dispatches := 1\<rparr>) \<and>
   run (scripted [Inr (model_response
                         [FunctionCall ''write_file''
                            [(''file_path'', VStr ''/tmp/x''), (''contents'', VInt 5)]]),
                  Inr (model_response [Text ''unreachable''])])
       ''write 5'' demo_agent =
     (Inl TypeError,
      demo_agent\<lparr>contents :=
                    [\<lparr>role = User, parts = [Text ''write 5'']\<rparr>,
                     \<lparr>role = Model,
                      parts = [FunctionCall ''write_file''
                                 [(''file_path'', VStr ''/tmp/x''), (''contents'', VInt 5)]]\<rparr>],
                  world := [(''/tmp/x'', []), (''a.txt'', ''alpha''), (''b.txt'', ''beta'')],
                  dispatches := 1\<rparr>)"
proof -
  let ?t = "\<lparr>tool_definition = write_file_definition, tool_function = write_file stub_os\<rparr>"
  let ?a = "[(''file_path'', VStr ''/tmp/x'')]"
  let ?r1 = "model_response [FunctionCall ''write_file'' ?a]"
  let ?c1 = "model_turn [FunctionCall ''write_file'' ?a]"
  let ?A = "scripted [Inr ?r1, Inr (model_response [Text ''unreachable''])]"
  let ?st1 = "snd (dispatch ?A (append_user ''write x'' demo_agent))"
  let ?a' = "[(''file_path'', VStr ''/tmp/x''), (''contents'', VInt 5)]"
  let ?r1' = "model_response [FunctionCall ''write_file'' ?a']"
  let ?c1' = "model_turn [FunctionCall ''write_file'' ?a']"
  let ?B = "scripted [Inr ?r1', Inr (model_response [Text ''unreachable''])]"
  let ?st1' = "snd (dispatch ?B (append_user ''write 5'' demo_agent))"
  have a1: "dispatch ?A (append_user ''write x'' demo_agent) = (Inr (?r1, ?c1), ?st1)"
    by (simp add: example_simps)
  have a2: "has_function_call ?c1"
    by (simp add: example_simps)
  have a3: "function_calls ?c1 = [] @ (''write_file'', ?a) # []"
    by (simp add: example_simps)
  have a4: "exec_calls [] ?st1 = (None, ?st1)"
    by simp
  have a5: "map_of (tools ?st1) ''write_file'' = Some ?t"
    by (simp add: example_simps)
  have a6: "set (map fst ?a) \<noteq> set (params (tool_function ?t))"
    by (simp add: write_file_def)
  have b1: "dispatch ?B (append_user ''write 5'' demo_agent) = (Inr (?r1', ?c1'), ?st1')"
    by (simp add: example_simps)
  have b2: "has_function_call ?c1'"
    by (simp add: example_simps)
  have b3: "function_calls ?c1' = [] @ (''write_file'', ?a') # []"
    by (simp add: example_simps)
  have b4: "exec_calls [] ?st1' = (None, ?st1')"
    by simp
  have b5: "map_of (tools ?st1') ''write_file'' = Some ?t"
    by (simp add: example_simps)
  have b6: "set (map fst ?a') = set (params (tool_function ?t))"
    by (simp add: write_file_def insert_commute)
  have "run ?A ''write x'' demo_agent = (Inl TypeError, ?st1)"
    using arguments_not_validated[OF a1 a2 a3 a4 a5] a6 by simp
  moreover have "run ?B ''write 5'' demo_agent =
      (case body (tool_function ?t) ?a' (world ?st1') of
           (Inl e, w') \<Rightarrow> (Inl e, ?st1'\<lparr>world := w'\<rparr>)
         | (Inr v, w') \<Rightarrow>
             (case exec_calls []
                     (?st1'\<lparr>world := w',
                          contents := contents ?st1' @
                            [\<lparr>role = User, parts = [FunctionResponse ''write_file'' v]\<rparr>]\<rparr>) of
                (Some e, st3) \<Rightarrow> (Inl e, st3)
              | (None, st3) \<Rightarrow>
                  (case dispatch ?B st3 of
                     (Inl e, st4) \<Rightarrow> (Inl e, st4)
                   | (Inr (r2, c2), st4) \<Rightarrow> (Inr r2, st4))))"
    using arguments_not_validated[OF b1 b2 b3 b4 b5] b6 by simp
  ultimately show ?thesis
    by (simp add: example_simps)
qed

section \<open>Agent of toolsAgent.py: the result turns of a tool round\<close>


lemma map_filter_function_call:
  "map (\<lambda>(n, a). FunctionCall n a) (List.map_filter function_call ps) =
   filter (\<lambda>p. case p of FunctionCall n a \<Rightarrow> True | _ \<Rightarrow> False) ps"
proof (induction ps)
  case Nil
  show ?case by (simp add: List.map_filter_simps)
next
  case (Cons p ps)
  then show ?case by (cases p) (simp_all add: List.map_filter_simps)
qed

lemma function_calls_parts:
  "map (\<lambda>(n, a). FunctionCall n a) (function_calls c) =
   filter (\<lambda>p. case p of FunctionCall n a \<Rightarrow> True | _ \<Rightarrow> False) (parts c)"
  by (simp add: function_calls_def map_filter_function_call)

lemma filter_all_registered:
  "(\<forall>(n, a) \<in> set calls. map_of reg n \<noteq> None) \<Longrightarrow>
   filter (\<lambda>(n, a). map_of reg n \<noteq> None) calls = calls"
  by (induction calls) auto

text \<open>
  Claim C3, as the code has it. Take a run whose first response starts with a function
  call and whose loop ends without an exception. The requests are all the function-call
  parts of the response, in their order. Before the second dispatch is issued, the loop has
  appended, after the user turn and the model's turn, one user-role turn per request that
  names a registered tool, in the order of the requests, each holding exactly one
  function-response part with the name of its request. So with \<open>N\<close> requests that all
  name registered tools there are \<open>N\<close> new turns of one result each, not one turn of
  \<open>N\<close> results. The second dispatch sends that history.
\<close>

theorem one_result_turn_per_request:
  assumes "dispatch be (append_user input st) = (Inr (r1, c1), st1)"
    and "has_function_call c1"
    and "exec_calls (function_calls c1) st1 = (None, st2)"
  shows "(\<exists>vs. length vs =
                 length (filter (\<lambda>(n, a). map_of (tools st) n \<noteq> None) (function_calls c1)) \<and>
               contents st2 =
                 contents st @ [\<lparr>role = User, parts = [Text input]\<rparr>, c1] @
                 map2 (\<lambda>(n, a) v. \<lparr>role = User, parts = [FunctionResponse n v]\<rparr>)
                   (filter (\<lambda>(n, a). map_of (tools st) n \<noteq> None) (function_calls c1)) vs) \<and>
         ((\<forall>(n, a) \<in> set (function_calls c1). map_of (tools st) n \<noteq> None) \<longrightarrow>
            (\<exists>vs. length vs = length (function_calls c1) \<and>
                  contents st2 =
                    contents st @ [\<lparr>role = User, parts = [Text input]\<rparr>, c1] @
                    map2 (\<lambda>(n, a) v. \<lparr>role = User, parts = [FunctionResponse n v]\<rparr>)
                      (function_calls c1) vs)) \<and>
         map (\<lambda>(n, a). FunctionCall n a) (function_calls c1) =
           filter (\<lambda>p. case p of FunctionCall n a \<Rightarrow> True | _ \<Rightarrow> False) (parts c1) \<and>
         run be input st =
           (case dispatch be st2 of
              (Inl e, st3) \<Rightarrow> (Inl e, st3)
            | (Inr (r2, c2), st3) \<Rightarrow> (Inr r2, st3)) \<and>
         rq_contents (request_of st2) = contents st2"
proof -
  let ?reg = "\<lambda>(n, a). map_of (tools st) n \<noteq> None"
  let ?mk = "\<lambda>(n, a) v. \<lparr>role = User, parts = [FunctionResponse n v]\<rparr>"
  note st1 = first_dispatch_state[OF assms(1)]
  have tools: "tools st1 = tools st" by (subst st1) simp
  have c1: "contents st1 = contents st @ [\<lparr>role = User, parts = [Text input]\<rparr>, c1]"
    by (subst st1) simp
  from exec_calls_results[OF assms(3)] tools c1
  obtain vs where vs: "length vs = length (filter ?reg (function_calls c1))"
    "contents st2 = contents st @ [\<lparr>role = User, parts = [Text input]\<rparr>, c1] @
        map2 ?mk (filter ?reg (function_calls c1)) vs"
    by (auto simp: function_response_turn_def)
  have general: "\<exists>vs. length vs = length (filter ?reg (function_calls c1)) \<and>
      contents st2 = contents st @ [\<lparr>role = User, parts = [Text input]\<rparr>, c1] @
        map2 ?mk (filter ?reg (function_calls c1)) vs"
    using vs by blast
  have all: "\<exists>vs. length vs = length (function_calls c1) \<and>
      contents st2 = contents st @ [\<lparr>role = User, parts = [Text input]\<rparr>, c1] @
        map2 ?mk (function_calls c1) vs"
    if "\<forall>(n, a) \<in> set (function_calls c1). map_of (tools st) n \<noteq> None"
  proof -
    from that have "filter ?reg (function_calls c1) = function_calls c1"
      by (rule filter_all_registered)
    with vs show ?thesis by auto
  qed
  have run: "run be input st =
           (case dispatch be st2 of
              (Inl e, st3) \<Rightarrow> (Inl e, st3)
            | (Inr (r2, c2), st3) \<Rightarrow> (Inr r2, st3))"
    using assms by (simp add: run_def tool_handling_def)
  have sent: "rq_contents (request_of st2) = contents st2"
    by (simp add: request_of_def)
  from general all function_calls_parts[of c1] run sent show ?thesis by blast
qed

text \<open>
  Claim C3 as stated asks for a single new turn holding \<open>N\<close> results. With two requests
  the history gets two turns of one result each between the model's turn and the final
  answer.
\<close>

theorem one_result_turn_per_request_counterexample:
  "contents (snd (run (scripted [Inr (model_response
                         [FunctionCall ''list_dir'' [(''directory_path'', VStr ''.'')],
                          FunctionCall ''read_file'' [(''file_path'', VStr ''a.txt'')]]),
                  Inr (model_response [Text ''two files; a.txt says alpha''])])
       ''look around'' demo_agent)) =
     [\<lparr>role = User, parts = [Text ''look around'']\<rparr>,
      \<lparr>role = Model,
       parts = [FunctionCall ''list_dir'' [(''directory_path'', VStr ''.'')],
                FunctionCall ''read_file'' [(''file_path'', VStr ''a.txt'')]]\<rparr>,
      \<lparr>role = User,
       parts = [FunctionResponse ''list_dir'' (VList [VStr ''a.txt'', VStr ''b.txt''])]\<rparr>,
      \<lparr>role = User, parts = [FunctionResponse ''read_file'' (VStr ''alpha'')]\<rparr>,
      \<lparr>role = Model, parts = [Text ''two files; a.txt says alpha'']\<rparr>]"
  by (simp add: example_simps)

text \<open>
  The theorem on the demo agent, with requests for \<open>list_dir\<close> and \<open>read_file\<close>.
\<close>

theorem one_result_turn_per_request_witness:
  "\<exists>vs. length vs = 2 \<and>
     contents (snd (exec_calls
                      [(''list_dir'', [(''directory_path'', VStr ''.'')]),
                       (''read_file'', [(''file_path'', VStr ''b.txt'')])]
                      (snd (dispatch
                              (scripted [Inr (model_response
                                  [FunctionCall ''list_dir'' [(''directory_path'', VStr ''.'')],
                                   FunctionCall ''read_file'' [(''file_path'', VStr ''b.txt'')]]),
                                Inr (model_response [Text ''done''])])
                              (append_user ''two things'' demo_agent))))) =
       [\<lparr>role = User, parts = [Text ''two things'']\<rparr>,
        \<lparr>role = Model,
         parts = [FunctionCall ''list_dir'' [(''directory_path'', VStr ''.'')],
                  FunctionCall ''read_file'' [(''file_path'', VStr ''b.txt'')]]\<rparr>] @
       map2 (\<lambda>(n, a) v. \<lparr>role = User, parts = [FunctionResponse n v]\<rparr>)
         [(''list_dir'', [(''directory_path'', VStr ''.'')]),
          (''read_file'', [(''file_path'', VStr ''b.txt'')])] vs"
proof -
  let ?r1 = "model_response
               [FunctionCall ''list_dir'' [(''directory_path'', VStr ''.'')],
                FunctionCall ''read_file'' [(''file_path'', VStr ''b.txt'')]]"
  let ?c1 = "model_turn
               [FunctionCall ''list_dir'' [(''directory_path'', VStr ''.'')],
                FunctionCall ''read_file'' [(''file_path'', VStr ''b.txt'')]]"
  let ?B = "scripted [Inr ?r1, Inr (model_response [Text ''done''])]"
  let ?st1 = "snd (dispatch ?B (append_user ''two things'' demo_agent))"
  let ?st2 = "snd (exec_calls (function_calls ?c1) ?st1)"
  have h1: "dispatch ?B (append_user ''two things'' demo_agent) = (Inr (?r1, ?c1), ?st1)"
    by (simp add: example_simps)
  have h2: "has_function_call ?c1"
    by (simp add: example_simps)
  have h3: "exec_calls (function_calls ?c1) ?st1 = (None, ?st2)"
    by (simp add: example_simps)
  have h4: "\<forall>(n, a) \<in> set (function_calls ?c1). map_of (tools demo_agent) n \<noteq> None"
    by (simp add: example_simps)
  have "\<exists>vs. length vs = length (function_calls ?c1) \<and>
          contents ?st2 =
            contents demo_agent @ [\<lparr>role = User, parts = [Text ''two things'']\<rparr>, ?c1] @
            map2 (\<lambda>(n, a) v. \<lparr>role = User, parts = [FunctionResponse n v]\<rparr>)
              (function_calls ?c1) vs"
    using one_result_turn_per_request[OF h1 h2 h3] h4 by blast
  moreover have "function_calls ?c1 =
      [(''list_dir'', [(''directory_path'', VStr ''.'')]),
       (''read_file'', [(''file_path'', VStr ''b.txt'')])]"
    by (simp add: example_simps)
  moreover have "contents demo_agent = []"
    by (simp add: demo_agent_def)
  moreover have "\<And>x y :: string \<times> args. length [x, y] = 2"
    by simp
  ultimately show ?thesis
    by (simp only: model_turn_def append_Nil)
qed

section \<open>Agent of toolsAgent.py: when tool handling proceeds\<close>


lemma has_function_call_iff:
  "has_function_call c \<longleftrightarrow> (\<exists>n a ps. parts c = FunctionCall n a # ps)"
proof (cases "parts c")
  case Nil
  then show ?thesis by (simp add: has_function_call_def)
next
  case (Cons p ps)
  then show ?thesis by (cases p) (simp_all add: has_function_call_def)
qed

text \<open>
  Claim C5, as the code has it. After the first dispatch has been answered and its content
  appended, tool handling proceeds if and only if the first part of the response is a
  function call: \<open>has_function_call\<close> looks at \<open>parts[0]\<close> only, as its comment says.
  Then the requests that go through the loop are all the function-call parts of the
  response, in any position and in their order. Otherwise the response is returned after
  this one dispatch and nothing is executed, also when a later part is a function call.
\<close>

theorem tool_handling_iff_first_part:
  assumes "dispatch be (append_user input st) = (Inr (r1, c1), st1)"
  shows "run be input st =
           (if (\<exists>n a ps. parts c1 = FunctionCall n a # ps) then
              (case exec_calls (function_calls c1) st1 of
                 (Some e, st2) \<Rightarrow> (Inl e, st2)
               | (None, st2) \<Rightarrow>
                   (case dispatch be st2 of
                      (Inl e, st3) \<Rightarrow> (Inl e, st3)
                    | (Inr (r2, c2), st3) \<Rightarrow> (Inr r2, st3)))
            else (Inr r1, st1)) \<and>
         map (\<lambda>(n, a). FunctionCall n a) (function_calls c1) =
           filter (\<lambda>p. case p of FunctionCall n a \<Rightarrow> True | _ \<Rightarrow> False) (parts c1) \<and>
         st1 = st\<lparr>contents := contents st @ [\<lparr>role = User, parts = [Text input]\<rparr>, c1],
                   dispatches := Suc (dispatches st)\<rparr>"
proof -
  have "run be input st =
           (if (\<exists>n a ps. parts c1 = FunctionCall n a # ps) then
              (case exec_calls (function_calls c1) st1 of
                 (Some e, st2) \<Rightarrow> (Inl e, st2)
               | (None, st2) \<Rightarrow>
                   (case dispatch be st2 of
                      (Inl e, st3) \<Rightarrow> (Inl e, st3)
                    | (Inr (r2, c2), st3) \<Rightarrow> (Inr r2, st3)))
            else (Inr r1, st1))"
    using assms has_function_call_iff[of c1] by (simp add: run_def tool_handling_def)
  with function_calls_parts[of c1] first_dispatch_state[OF assms] show ?thesis by blast
qed

text \<open>
  The theorem on the demo agent: a response with text first and a call of \<open>write_file\<close>
  after it is returned as it is and no file is written; a response with a call, a text and
  a second call has both calls executed.
\<close>

theorem tool_handling_iff_first_part_witness:
  "run (scripted [Inr (model_response
                         [Text ''I will write it.'',
                          FunctionCall ''write_file''
                            [(''file_path'', VStr ''c.txt''), (''contents'', VStr ''gamma'')]]),
                  Inr (model_response [Text ''unreachable''])])
       ''write c.txt'' demo_agent =
     (Inr (model_response
             [Text ''I will write it.'',
              FunctionCall ''write_file''
                [(''file_path'', VStr ''c.txt''), (''contents'', VStr ''gamma'')]]),
      demo_agent\<lparr>contents :=
                    [\<lparr>role = User, parts = [Text ''write c.txt'']\<rparr>,
                     \<lparr>role = Model,
                      parts = [Text ''I will write it.'',
                               FunctionCall ''write_file''
                                 [(''file_path'', VStr ''c.txt''), (''contents'', VStr ''gamma'')]]\<rparr>],
                  dispatches := 1\<rparr>) \<and>
   run (scripted [Inr (model_response
                         [FunctionCall ''read_file'' [(''file_path'', VStr ''a.txt'')],
                          Text ''and then'',
                          FunctionCall ''write_file''
                            [(''file_path'', VStr ''c.txt''), (''contents'', VStr ''gamma'')]]),
                  Inr (model_response [Text ''both done''])])
       ''read and write'' demo_agent =
     (Inr (model_response [Text ''both done'']),
      demo_agent\<lparr>contents :=
                    [\<lparr>role = User, parts = [Text ''read and write'']\<rparr>,
                     \<lparr>role = Model,
                      parts = [FunctionCall ''read_file'' [(''file_path'', VStr ''a.txt'')],
                               Text ''and then'',
                               FunctionCall ''write_file''
                                 [(''file_path'', VStr ''c.txt''), (''contents'', VStr ''gamma'')]]\<rparr>,
                     \<lparr>role = User, parts = [FunctionResponse ''read_file'' (VStr ''alpha'')]\<rparr>,
                     \<lparr>role = User, parts = [FunctionResponse ''write_file'' (VBool True)]\<rparr>,
                     \<lparr>role = Model, parts = [Text ''both done'']\<rparr>],
                  world := [(''c.txt'', ''gamma''), (''a.txt'', ''alpha''), (''b.txt'', ''beta'')],
                  dispatches := 2\<rparr>)"
proof -
  let ?w = "FunctionCall ''write_file'' [(''file_path'', VStr ''c.txt''), (''contents'', VStr ''gamma'')]"
  let ?r1 = "model_response [Text ''I will write it.'', ?w]"
  let ?c1 = "model_turn [Text ''I will write it.'', ?w]"
  let ?A = "scripted [Inr ?r1, Inr (model_response [Text ''unreachable''])]"
  let ?st1 = "snd (dispatch ?A (append_user ''write c.txt'' demo_agent))"
  let ?r1' = "model_response [FunctionCall ''read_file'' [(''file_path'', VStr ''a.txt'')],
                              Text ''and then'', ?w]"
  let ?c1' = "model_turn [FunctionCall ''read_file'' [(''file_path'', VStr ''a.txt'')],
                          Text ''and then'', ?w]"
  let ?B = "scripted [Inr ?r1', Inr (model_response [Text ''both done''])]"
  let ?st1' = "snd (dispatch ?B (append_user ''read and write'' demo_agent))"
  have a1: "dispatch ?A (append_user ''write c.txt'' demo_agent) = (Inr (?r1, ?c1), ?st1)"
    by (simp add: example_simps)
  have a2: "\<not> (\<exists>n a ps. parts ?c1 = FunctionCall n a # ps)"
    by (simp add: model_turn_def)
  have b1: "dispatch ?B (append_user ''read and write'' demo_agent) = (Inr (?r1', ?c1'), ?st1')"
    by (simp add: example_simps)
  have b2: "\<exists>n a ps. parts ?c1' = FunctionCall n a # ps"
    by (simp add: model_turn_def)
  have "run ?A ''write c.txt'' demo_agent = (Inr ?r1, ?st1)"
    using tool_handling_iff_first_part[OF a1] a2 by simp
  moreover have "run ?B ''read and write'' demo_agent =
      (case exec_calls (function_calls ?c1') ?st1' of
         (Some e, st2) \<Rightarrow> (Inl e, st2)
       | (None, st2) \<Rightarrow>
           (case dispatch ?B st2 of
              (Inl e, st3) \<Rightarrow> (Inl e, st3)
            | (Inr (r2, c2), st3) \<Rightarrow> (Inr r2, st3)))"
    using tool_handling_iff_first_part[OF b1] b2 by simp
  ultimately show ?thesis
    by (simp add: example_simps)
qed

text \<open>
  Claim C5 as stated has tool handling proceed when a function call is in any position.
  On a response with a text part followed by a call of \<open>list_dir\<close> the run returns that
  response after one dispatch, with no result turn.
\<close>

theorem text_first_counterexample:
  "run (scripted [Inr (model_response
                         [Text ''Let me look.'',
                          FunctionCall ''list_dir'' [(''directory_path'', VStr ''.'')]]),
                  Inr (model_response [Text ''a.txt, b.txt''])])
       ''list the files'' demo_agent =
     (Inr (model_response
             [Text ''Let me look.'',
              FunctionCall ''list_dir'' [(''directory_path'', VStr ''.'')]]),
      demo_agent\<lparr>contents :=
                    [\<lparr>role = User, parts = [Text ''list the files'']\<rparr>,
                     \<lparr>role = Model,
                      parts = [Text ''Let me look.'',
                               FunctionCall ''list_dir'' [(''directory_path'', VStr ''.'')]]\<rparr>],
                  dispatches := 1\<rparr>)"
  by (simp add: example_simps)

section \<open>Agent of toolsAgent.py: one dispatch or two\<close>


lemma map_filter_no_call:
  "(\<forall>n a. FunctionCall n a \<notin> set ps) \<Longrightarrow> List.map_filter function_call ps = []"
proof (induction ps)
  case Nil
  show ?case by (simp add: List.map_filter_simps)
next
  case (Cons p ps)
  then show ?case by (cases p) (auto simp: List.map_filter_simps)
qed

lemma no_call_no_handling:
  assumes "\<forall>n a. FunctionCall n a \<notin> set (parts c)"
  shows "\<not> has_function_call c"
proof
  assume "has_function_call c"
  then obtain n a ps where "parts c = FunctionCall n a # ps"
    using has_function_call_iff by blast
  with assms show False by auto
qed

lemma single_call:
  assumes "parts c = FunctionCall n a # ps" and "\<forall>m b. FunctionCall m b \<notin> set ps"
  shows "has_function_call c" and "function_calls c = [(n, a)]"
proof -
  show "has_function_call c" using assms(1) has_function_call_iff by blast
  show "function_calls c = [(n, a)]"
    using assms(1) map_filter_no_call[OF assms(2)]
    by (simp add: function_calls_def List.map_filter_simps(1) List.map_filter_simps(2))
qed

lemma run_no_call:
  assumes "be (dispatches st) (request_of (append_user input st)) = Inr r1"
    and "candidates r1 = c1 # cs1"
    and "\<forall>n a. FunctionCall n a \<notin> set (parts c1)"
  shows "run be input st =
           (Inr r1, st\<lparr>contents := contents st @ [\<lparr>role = User, parts = [Text input]\<rparr>, c1],
                        dispatches := Suc (dispatches st)\<rparr>)"
proof -
  have d: "dispatches (append_user input st) = dispatches st" by (simp add: append_user_def)
  obtain st1 where d1: "dispatch be (append_user input st) = (Inr (r1, c1), st1)"
    using dispatch_answer[of be "append_user input st" r1 c1 cs1] assms(1,2) d by simp
  from first_dispatch_state[OF d1] no_call_no_handling[OF assms(3)] d1 show ?thesis
    by (simp add: run_def)
qed

lemma run_one_call:
  assumes a1: "be (dispatches st) (request_of (append_user input st)) = Inr r1"
    and a2: "candidates r1 = c1 # cs1"
    and a3: "parts c1 = FunctionCall n a # ps"
    and a4: "\<forall>m b. FunctionCall m b \<notin> set ps"
    and a5: "map_of (tools st) n = Some t"
    and a6: "call_kwargs (tool_function t) a (world st) = (Inr v, w')"
    and a7: "be (Suc (dispatches st))
               (request_of
                  (st\<lparr>contents := contents st @
                        [\<lparr>role = User, parts = [Text input]\<rparr>, c1,
                         \<lparr>role = User, parts = [FunctionResponse n v]\<rparr>],
                      world := w', dispatches := Suc (dispatches st)\<rparr>)) = Inr r2"
    and a8: "candidates r2 = c2 # cs2"
  shows "run be input st =
           (Inr r2,
            st\<lparr>contents := contents st @
                  [\<lparr>role = User, parts = [Text input]\<rparr>, c1,
                   \<lparr>role = User, parts = [FunctionResponse n v]\<rparr>, c2],
                world := w', dispatches := dispatches st + 2\<rparr>)"
proof -
  let ?st1 = "st\<lparr>contents := contents st @ [\<lparr>role = User, parts = [Text input]\<rparr>, c1],
                  dispatches := Suc (dispatches st)\<rparr>"
  let ?st2 = "st\<lparr>contents := contents st @
                        [\<lparr>role = User, parts = [Text input]\<rparr>, c1,
                         \<lparr>role = User, parts = [FunctionResponse n v]\<rparr>],
                      world := w', dispatches := Suc (dispatches st)\<rparr>"
  have d: "dispatches (append_user input st) = dispatches st" by (simp add: append_user_def)
  obtain st1 where d1: "dispatch be (append_user input st) = (Inr (r1, c1), st1)"
    using dispatch_answer[of be "append_user input st" r1 c1 cs1] a1 a2 d by simp
  from first_dispatch_state[OF d1] have st1: "st1 = ?st1" .
  note sc = single_call[OF a3 a4]
  have ex: "exec_calls (function_calls c1) ?st1 = (None, ?st2)"
    using a5 a6 by (simp add: sc(2) function_response_turn_def)
  have d2: "dispatch be ?st2 =
      (Inr (r2, c2), ?st2\<lparr>dispatches := Suc (dispatches ?st2), contents := contents ?st2 @ [c2]\<rparr>)"
    using dispatch_answer[of be ?st2 r2 c2 cs2] a7 a8 by simp
  have "run be input st =
      (Inr r2, ?st2\<lparr>dispatches := Suc (dispatches ?st2), contents := contents ?st2 @ [c2]\<rparr>)"
    using d1 st1 sc(1) ex d2 by (simp add: run_def tool_handling_def)
  then show ?thesis by simp
qed

text \<open>
  Claim C7, as the code has it. When the first dispatch is answered by a response with no
  function-call part, the run makes exactly one dispatch, appends the user turn and the
  content of the response, and returns that response. When the first part of the response
  is a function call and no other part is one, the name is a key of the tools dict, the
  function returns a value and the second dispatch is answered, the run makes exactly two
  dispatches, returns the second response and appends exactly four turns: the user turn,
  the model's request, the result turn and the final answer. On a new agent, whose history
  is empty, the history then has exactly four turns.
\<close>

theorem one_or_two_dispatches:
  "(be (dispatches st) (request_of (append_user input st)) = Inr r1 \<and>
    candidates r1 = c1 # cs1 \<and>
    (\<forall>n a. FunctionCall n a \<notin> set (parts c1)) \<longrightarrow>
      run be input st =
        (Inr r1, st\<lparr>contents := contents st @ [\<lparr>role = User, parts = [Text input]\<rparr>, c1],
                     dispatches := Suc (dispatches st)\<rparr>)) \<and>
   (be' (dispatches st') (request_of (append_user input' st')) = Inr r1' \<and>
    candidates r1' = c1' # cs1' \<and>
    parts c1' = FunctionCall n a # ps \<and>
    (\<forall>m b. FunctionCall m b \<notin> set ps) \<and>
    map_of (tools st') n = Some t \<and>
    call_kwargs (tool_function t) a (world st') = (Inr v, w') \<and>
    be' (Suc (dispatches st'))
        (request_of
           (st'\<lparr>contents := contents st' @
                  [\<lparr>role = User, parts = [Text input']\<rparr>, c1',
                   \<lparr>role = User, parts = [FunctionResponse n v]\<rparr>],
                world := w', dispatches := Suc (dispatches st')\<rparr>)) = Inr r2 \<and>
    candidates r2 = c2 # cs2 \<longrightarrow>
      run be' input' st' =
        (Inr r2,
         st'\<lparr>contents := contents st' @
                [\<lparr>role = User, parts = [Text input']\<rparr>, c1',
                 \<lparr>role = User, parts = [FunctionResponse n v]\<rparr>, c2],
              world := w', dispatches := dispatches st' + 2\<rparr>) \<and>
      length (contents (snd (run be' input' st'))) = length (contents st') + 4)"
proof (intro conjI impI)
  assume "be (dispatches st) (request_of (append_user input st)) = Inr r1 \<and>
    candidates r1 = c1 # cs1 \<and> (\<forall>n a. FunctionCall n a \<notin> set (parts c1))"
  then show "run be input st =
        (Inr r1, st\<lparr>contents := contents st @ [\<lparr>role = User, parts = [Text input]\<rparr>, c1],
                     dispatches := Suc (dispatches st)\<rparr>)"
    using run_no_call[of be st "input" r1 c1 cs1] by blast
next
  assume h: "be' (dispatches st') (request_of (append_user input' st')) = Inr r1' \<and>
    candidates r1' = c1' # cs1' \<and>
    parts c1' = FunctionCall n a # ps \<and>
    (\<forall>m b. FunctionCall m b \<notin> set ps) \<and>
    map_of (tools st') n = Some t \<and>
    call_kwargs (tool_function t) a (world st') = (Inr v, w') \<and>
    be' (Suc (dispatches st'))
        (request_of
           (st'\<lparr>contents := contents st' @
                  [\<lparr>role = User, parts = [Text input']\<rparr>, c1',
                   \<lparr>role = User, parts = [FunctionResponse n v]\<rparr>],
                world := w', dispatches := Suc (dispatches st')\<rparr>)) = Inr r2 \<and>
    candidates r2 = c2 # cs2"
  then have r: "run be' input' st' =
        (Inr r2,
         st'\<lparr>contents := contents st' @
                [\<lparr>role = User, parts = [Text input']\<rparr>, c1',
                 \<lparr>role = User, parts = [FunctionResponse n v]\<rparr>, c2],
              world := w', dispatches := dispatches st' + 2\<rparr>)"
    using run_one_call[of be' st' input' r1' c1' cs1' n a ps t v w' r2 c2 cs2] by blast
  then show "run be' input' st' =
        (Inr r2,
         st'\<lparr>contents := contents st' @
                [\<lparr>role = User, parts = [Text input']\<rparr>, c1',
                 \<lparr>role = User, parts = [FunctionResponse n v]\<rparr>, c2],
              world := w', dispatches := dispatches st' + 2\<rparr>)" .
  from r show "length (contents (snd (run be' input' st'))) = length (contents st') + 4"
    by simp
qed

text \<open>
  The theorem on the demo agent, whose history is empty: the answer \<open>Berlin\<close> after one
  dispatch, and a call of \<open>list_dir\<close> that returns \<open>a.txt\<close> and \<open>b.txt\<close>, then the
  final answer.
\<close>

theorem one_or_two_dispatches_witness:
  "run (scripted [Inr (model_response [Text ''Berlin''])]) ''capital of Germany?'' demo_agent =
     (Inr (model_response [Text ''Berlin'']),
      demo_agent\<lparr>contents :=
                    [\<lparr>role = User, parts = [Text ''capital of Germany?'']\<rparr>,
                     \<lparr>role = Model, parts = [Text ''Berlin'']\<rparr>],
                  dispatches := 1\<rparr>) \<and>
   run (scripted [Inr (model_response [FunctionCall ''list_dir'' [(''directory_path'', VStr ''.'')]]),
                  Inr (model_response [Text ''a.txt, b.txt''])])
       ''which files?'' demo_agent =
     (Inr (model_response [Text ''a.txt, b.txt'']),
      demo_agent\<lparr>contents :=
                    [\<lparr>role = User, parts = [Text ''which files?'']\<rparr>,
                     \<lparr>role = Model,
                      parts = [FunctionCall ''list_dir'' [(''directory_path'', VStr ''.'')]]\<rparr>,
                     \<lparr>role = User,
                      parts = [FunctionResponse ''list_dir'' (VList [VStr ''a.txt'', VStr ''b.txt''])]\<rparr>,
                     \<lparr>role = Model, parts = [Text ''a.txt, b.txt'']\<rparr>],
                  dispatches := 2\<rparr>) \<and>
   length (contents (snd (run
       (scripted [Inr (model_response [FunctionCall ''list_dir'' [(''directory_path'', VStr ''.'')]]),
                  Inr (model_response [Text ''a.txt, b.txt''])])
       ''which files?'' demo_agent))) = 4"
proof -
  let ?A = "scripted [Inr (model_response [Text ''Berlin''])]"
  let ?r1 = "model_response [FunctionCall ''list_dir'' [(''directory_path'', VStr ''.'')]]"
  let ?c1 = "model_turn [FunctionCall ''list_dir'' [(''directory_path'', VStr ''.'')]]"
  let ?r2 = "model_response [Text ''a.txt, b.txt'']"
  let ?B = "scripted [Inr ?r1, Inr ?r2]"
  let ?t = "\<lparr>tool_definition = list_dir_definition, tool_function = list_dir stub_os\<rparr>"
  let ?v = "VList [VStr ''a.txt'', VStr ''b.txt'']"
  have a1: "?A (dispatches demo_agent) (request_of (append_user ''capital of Germany?'' demo_agent)) =
              Inr (model_response [Text ''Berlin''])"
    by (simp add: scripted_def demo_agent_def)
  have a2: "candidates (model_response [Text ''Berlin'']) = model_turn [Text ''Berlin''] # []"
    by (simp add: model_response_def)
  have a3: "\<forall>n a. FunctionCall n a \<notin> set (parts (model_turn [Text ''Berlin'']))"
    by (simp add: model_turn_def)
  have b1: "?B (dispatches demo_agent) (request_of (append_user ''which files?'' demo_agent)) = Inr ?r1"
    by (simp add: scripted_def demo_agent_def)
  have b2: "candidates ?r1 = ?c1 # []"
    by (simp add: model_response_def)
  have b3: "parts ?c1 = FunctionCall ''list_dir'' [(''directory_path'', VStr ''.'')] # []"
    by (simp add: model_turn_def)
  have b4: "\<forall>m b. FunctionCall m b \<notin> set []"
    by simp
  have b5: "map_of (tools demo_agent) ''list_dir'' = Some ?t"
    by (simp add: demo_agent_def file_tools_def)
  have b6: "call_kwargs (tool_function ?t) [(''directory_path'', VStr ''.'')] (world demo_agent) =
              (Inr ?v, world demo_agent)"
    by (simp add: example_simps)
  have b7: "?B (Suc (dispatches demo_agent))
        (request_of
           (demo_agent\<lparr>contents := contents demo_agent @
                  [\<lparr>role = User, parts = [Text ''which files?'']\<rparr>, ?c1,
                   \<lparr>role = User, parts = [FunctionResponse ''list_dir'' ?v]\<rparr>],
                world := world demo_agent, dispatches := Suc (dispatches demo_agent)\<rparr>)) = Inr ?r2"
    by (simp add: scripted_def demo_agent_def)
  have b8: "candidates ?r2 = model_turn [Text ''a.txt, b.txt''] # []"
    by (simp add: model_response_def)
  note inst = one_or_two_dispatches
    [where be = ?A and st = demo_agent and input = "''capital of Germany?''"
       and ?r1.0 = "model_response [Text ''Berlin'']" and ?c1.0 = "model_turn [Text ''Berlin'']"
       and ?cs1.0 = "[]"
       and be' = ?B and st' = demo_agent and input' = "''which files?''"
       and r1' = ?r1 and c1' = ?c1 and cs1' = "[]"
       and n = "''list_dir''" and a = "[(''directory_path'', VStr ''.'')]" and ps = "[]"
       and t = ?t and v = ?v and w' = "world demo_agent"
       and ?r2.0 = ?r2 and ?c2.0 = "model_turn [Text ''a.txt, b.txt'']" and ?cs2.0 = "[]"]
  have "run ?A ''capital of Germany?'' demo_agent =
        (Inr (model_response [Text ''Berlin'']),
         demo_agent\<lparr>contents := contents demo_agent @
               [\<lparr>role = User, parts = [Text ''capital of Germany?'']\<rparr>, model_turn [Text ''Berlin'']],
             dispatches := Suc (dispatches demo_agent)\<rparr>) \<and>
        run ?B ''which files?'' demo_agent =
        (Inr ?r2,
         demo_agent\<lparr>contents := contents demo_agent @
                [\<lparr>role = User, parts = [Text ''which files?'']\<rparr>, ?c1,
                 \<lparr>role = User, parts = [FunctionResponse ''list_dir'' ?v]\<rparr>,
                 model_turn [Text ''a.txt, b.txt'']],
              world := world demo_agent, dispatches := dispatches demo_agent + 2\<rparr>) \<and>
        length (contents (snd (run ?B ''which files?'' demo_agent))) =
          length (contents demo_agent) + 4"
    using inst a1 a2 a3 b1 b2 b3 b4 b5 b6 b7 b8 by blast
  then show ?thesis
    by (simp add: demo_agent_def model_turn_def)
qed

text \<open>
  Claim C7 as stated speaks of any response that contains one tool-call request. When the
  request names a tool that is not registered, the run makes two dispatches and the history
  ends with three turns, not four.
\<close>

theorem one_call_counterexample:
  "run (scripted [Inr (model_response [FunctionCall ''search_web'' [(''query'', VStr ''weather'')]]),
                  Inr (model_response [Text ''I cannot search.''])])
       ''weather?'' demo_agent =
     (Inr (model_response [Text ''I cannot search.'']),
      demo_agent\<lparr>contents :=
                    [\<lparr>role = User, parts = [Text ''weather?'']\<rparr>,
                     \<lparr>role = Model,
                      parts = [FunctionCall ''search_web'' [(''query'', VStr ''weather'')]]\<rparr>,
                     \<lparr>role = Model, parts = [Text ''I cannot search.'']\<rparr>],
                  dispatches := 2\<rparr>)"
  by (simp add: example_simps)

end
